theory Spec2Isabelle
  imports Complex_Main "HOL-Library.Sublist"
begin

section \<open>Values of the host language\<close>

text \<open>
  A string of the source language is a sequence of UTF-16 code units; a code unit is
  modelled by its number. \<open>str\<close> embeds the ASCII literals of the source text.
\<close>

type_synonym jsstring = "nat list"

definition str :: "string \<Rightarrow> jsstring" where
  "str s = map of_char s"

text \<open>
  A number of the source language is an IEEE double. The finite ones are modelled by the
  real they denote (so the two zeros are one value, as they are for \<open>===\<close>); the three
  non-finite ones are constructors of their own.
\<close>

datatype jsnum = Finite real | NaN | PosInfinity | NegInfinity

text \<open>\<open>Array.prototype.includes\<close> and \<open>Array.prototype.some\<close>.\<close>

definition array_includes :: "'a list \<Rightarrow> 'a \<Rightarrow> bool" where
  "array_includes xs x = (x \<in> set xs)"

definition array_some :: "'a list \<Rightarrow> ('a \<Rightarrow> bool) \<Rightarrow> bool" where
  "array_some xs P = list_ex P xs"

text \<open>
  \<open>String.prototype.trim\<close> removes the WhiteSpace and LineTerminator code points of
  ECMAScript from both ends; each of them is one code unit.
\<close>

definition isWhiteSpace :: "nat \<Rightarrow> bool" where
  "isWhiteSpace c =
     (c = 0x9 \<or> c = 0xA \<or> c = 0xB \<or> c = 0xC \<or> c = 0xD \<or> c = 0x20 \<or> c = 0xA0 \<or>
      c = 0x1680 \<or> (0x2000 \<le> c \<and> c \<le> 0x200A) \<or> c = 0x2028 \<or> c = 0x2029 \<or>
      c = 0x202F \<or> c = 0x205F \<or> c = 0x3000 \<or> c = 0xFEFF)"

definition trim :: "jsstring \<Rightarrow> jsstring" where
  "trim s = rev (dropWhile isWhiteSpace (rev (dropWhile isWhiteSpace s)))"

text \<open>
  \<open>String.prototype.toLowerCase\<close> and \<open>String.prototype.toUpperCase\<close> follow the Unicode
  case mappings, which belong to the run-time system and not to the repository. Every
  function below that calls \<open>toLowerCase\<close> takes the mapping as its first argument, so
  that what is proved of it holds of the mapping of the run-time system, whatever that
  does on each string.

  Where a property needs something of the two mappings, it is stated as a hypothesis.
  \<open>asciiCase\<close> says what is common knowledge of them on ASCII: on a string of code units
  below 128 they act unit by unit, on the letters only.
\<close>

definition lowerAscii :: "nat \<Rightarrow> nat" where
  "lowerAscii c = (if 0x41 \<le> c \<and> c \<le> 0x5A then c + 0x20 else c)"

definition upperAscii :: "nat \<Rightarrow> nat" where
  "upperAscii c = (if 0x61 \<le> c \<and> c \<le> 0x7A then c - 0x20 else c)"

definition asciiCase :: "(jsstring \<Rightarrow> jsstring) \<Rightarrow> (jsstring \<Rightarrow> jsstring) \<Rightarrow> bool" where
  "asciiCase lc uc =
     (\<forall>s. list_all (\<lambda>c. c < 128) s \<longrightarrow> lc s = map lowerAscii s \<and> uc s = map upperAscii s)"

text \<open>
  One pair of mappings, to evaluate the examples with. It is the Unicode case mapping
  of the blocks Basic Latin and Latin-1 Supplement, special casing included (the upper
  case of U+00DF is the two code units \<open>SS\<close>, that of U+00B5 is U+039C, that of U+00FF is
  U+0178, and the lower case of the latter two leads back): on every string of code
  units below 256 the pair does what the run-time system does, and so does the lower
  case on the upper case of such a string. On other strings the pair is not the
  mapping of the run-time system; no example applies it to one, and no property below
  is derived from it.
\<close>

definition latin1 :: "jsstring \<Rightarrow> bool" where
  "latin1 s = list_all (\<lambda>c. c < 256) s"

definition latin1LowerUnit :: "nat \<Rightarrow> nat" where
  "latin1LowerUnit c =
     (if (0x41 \<le> c \<and> c \<le> 0x5A) \<or> (0xC0 \<le> c \<and> c \<le> 0xDE \<and> c \<noteq> 0xD7) then c + 0x20
      else if c = 0x178 then 0xFF
      else if c = 0x39C then 0x3BC
      else c)"

definition latin1UpperUnit :: "nat \<Rightarrow> nat list" where
  "latin1UpperUnit c =
     (if (0x61 \<le> c \<and> c \<le> 0x7A) \<or> (0xE0 \<le> c \<and> c \<le> 0xFE \<and> c \<noteq> 0xF7) then [c - 0x20]
      else if c = 0xDF then [0x53, 0x53]
      else if c = 0xB5 then [0x39C]
      else if c = 0xFF then [0x178]
      else [c])"

definition latin1_toLowerCase :: "jsstring \<Rightarrow> jsstring" where
  "latin1_toLowerCase s = map latin1LowerUnit s"

definition latin1_toUpperCase :: "jsstring \<Rightarrow> jsstring" where
  "latin1_toUpperCase s = concat (map latin1UpperUnit s)"

text \<open>\<open>String.prototype.includes\<close>: the argument occurs at some position of the string.\<close>

fun string_includes :: "jsstring \<Rightarrow> jsstring \<Rightarrow> bool" where
  "string_includes [] q = (q = [])"
| "string_includes (c # s) q = (prefix q (c # s) \<or> string_includes s q)"

text \<open>
  The guard \<open>s && s.toLowerCase().includes(q)\<close> on an optional string: \<open>undefined\<close> and
  the empty string are falsy.
\<close>

definition truthy_and_includes ::
  "(jsstring \<Rightarrow> jsstring) \<Rightarrow> jsstring option \<Rightarrow> jsstring \<Rightarrow> bool" where
  "truthy_and_includes toLowerCase s q =
     (case s of None \<Rightarrow> False | Some t \<Rightarrow> t \<noteq> [] \<and> string_includes (toLowerCase t) q)"

section \<open>Resources: types (features/Resources/types)\<close>

text \<open>
  \<open>DifficultyLevel\<close>, \<open>PriceType\<close>, \<open>Platform\<close> and \<open>CategoryId\<close> are unions of string
  literals: at run time a value of such a type is the string itself, and the membership
  tests of the code compare strings.
\<close>

type_synonym DifficultyLevel = jsstring
type_synonym PriceType = jsstring
type_synonym Platform = jsstring
type_synonym CategoryId = jsstring
type_synonym SubcategoryId = jsstring

text \<open>The fields \<open>id\<close> and \<open>notes\<close> of the source are \<open>id_r\<close> and \<open>notes_r\<close> here.\<close>

record Resource =
  id_r :: jsstring
  name :: jsstring
  nameJa :: "jsstring option"
  description :: jsstring
  descriptionLong :: "jsstring option"
  category :: CategoryId
  subcategory :: SubcategoryId
  tags :: "jsstring list"
  difficulty :: DifficultyLevel
  priceType :: PriceType
  priceDetails :: "jsstring option"
  platforms :: "Platform list"
  url :: jsstring
  imageUrl :: "jsstring option"
  rating :: "jsnum option"
  featured :: "bool option"
  notes_r :: "jsstring option"
  lastUpdated :: "jsstring option"

text \<open>The fields of \<open>ActiveFilters\<close> carry the suffix \<open>_f\<close>.\<close>

record ActiveFilters =
  difficulty_f :: "DifficultyLevel list"
  priceType_f :: "PriceType list"
  platforms_f :: "Platform list"
  search_f :: jsstring

definition DIFFICULTY_LEVELS :: "DifficultyLevel list" where
  "DIFFICULTY_LEVELS =
     [str ''beginner'', str ''intermediate'', str ''advanced'', str ''all-levels'']"

definition PRICE_TYPES :: "PriceType list" where
  "PRICE_TYPES = [str ''free'', str ''freemium'', str ''paid'', str ''subscription'']"

definition PLATFORMS :: "Platform list" where
  "PLATFORMS =
     [str ''web'', str ''ios'', str ''android'', str ''windows'', str ''macos'',
      str ''linux'', str ''physical'', str ''browser-extension'', str ''api'']"

definition CATEGORY_IDS :: "CategoryId list" where
  "CATEGORY_IDS =
     [str ''apps'', str ''websites'', str ''textbooks'', str ''youtube'', str ''podcasts'',
      str ''games'', str ''jlpt'', str ''reading'', str ''listening'', str ''speaking'',
      str ''writing'', str ''grammar'', str ''vocabulary'', str ''kanji'',
      str ''immersion'', str ''community'']"

section \<open>Resources: filters (features/Resources/lib/filters.ts)\<close>

definition filterByCategory :: "Resource list \<Rightarrow> jsstring \<Rightarrow> Resource list" where
  "filterByCategory resources cat =
     filter (\<lambda>resource. category resource = cat) resources"

definition filterBySubcategory :: "Resource list \<Rightarrow> SubcategoryId \<Rightarrow> Resource list" where
  "filterBySubcategory resources sub =
     filter (\<lambda>resource. subcategory resource = sub) resources"

definition filterByCategoryAndSubcategory ::
  "Resource list \<Rightarrow> jsstring \<Rightarrow> SubcategoryId \<Rightarrow> Resource list" where
  "filterByCategoryAndSubcategory resources cat sub =
     filter (\<lambda>resource. category resource = cat \<and> subcategory resource = sub) resources"

definition filterByDifficulty :: "Resource list \<Rightarrow> DifficultyLevel list \<Rightarrow> Resource list" where
  "filterByDifficulty resources difficulties =
     (if length difficulties = 0 then resources
      else filter (\<lambda>resource. array_includes difficulties (difficulty resource)) resources)"

definition filterByPriceType :: "Resource list \<Rightarrow> PriceType list \<Rightarrow> Resource list" where
  "filterByPriceType resources priceTypes =
     (if length priceTypes = 0 then resources
      else filter (\<lambda>resource. array_includes priceTypes (priceType resource)) resources)"

definition filterByPlatform :: "Resource list \<Rightarrow> Platform list \<Rightarrow> Resource list" where
  "filterByPlatform resources pfs =
     (if length pfs = 0 then resources
      else filter (\<lambda>resource.
             array_some (platforms resource) (\<lambda>platform. array_includes pfs platform))
           resources)"

definition combineFilters :: "Resource list \<Rightarrow> ActiveFilters \<Rightarrow> Resource list" where
  "combineFilters resources filters =
     (let result = resources;
          result = (if length (difficulty_f filters) > 0
                    then filterByDifficulty result (difficulty_f filters) else result);
          result = (if length (priceType_f filters) > 0
                    then filterByPriceType result (priceType_f filters) else result);
          result = (if length (platforms_f filters) > 0
                    then filterByPlatform result (platforms_f filters) else result)
      in result)"

text \<open>
  The three dimensions that \<open>combineFilters\<close> applies, and the application of the
  per-dimension filters of the module one after the other in a given order. These two
  definitions state the order-independence property; the source has no counterpart.
\<close>

datatype dimension = Difficulty | PriceType | Platform

fun applyDimension :: "dimension \<Rightarrow> ActiveFilters \<Rightarrow> Resource list \<Rightarrow> Resource list" where
  "applyDimension Difficulty filters resources =
     filterByDifficulty resources (difficulty_f filters)"
| "applyDimension PriceType filters resources =
     filterByPriceType resources (priceType_f filters)"
| "applyDimension Platform filters resources =
     filterByPlatform resources (platforms_f filters)"

definition applyInOrder :: "dimension list \<Rightarrow> ActiveFilters \<Rightarrow> Resource list \<Rightarrow> Resource list" where
  "applyInOrder order filters resources =
     foldl (\<lambda>acc d. applyDimension d filters acc) resources order"

text \<open>What a record has to satisfy in one dimension of the active filters.\<close>

fun satisfies :: "dimension \<Rightarrow> ActiveFilters \<Rightarrow> Resource \<Rightarrow> bool" where
  "satisfies Difficulty f r = (difficulty_f f = [] \<or> difficulty r \<in> set (difficulty_f f))"
| "satisfies PriceType f r = (priceType_f f = [] \<or> priceType r \<in> set (priceType_f f))"
| "satisfies Platform f r =
     (platforms_f f = [] \<or> (\<exists>p \<in> set (platforms r). p \<in> set (platforms_f f)))"

definition idSet :: "Resource list \<Rightarrow> jsstring set" where
  "idSet resources = set (map id_r resources)"

section \<open>Resources: search (features/Resources/lib/search)\<close>

text \<open>
  The first argument of both functions is \<open>String.prototype.toLowerCase\<close> of the run-time
  system.
\<close>

definition searchResources ::
  "(jsstring \<Rightarrow> jsstring) \<Rightarrow> Resource list \<Rightarrow> jsstring \<Rightarrow> Resource list" where
  "searchResources toLowerCase resources query =
     (let trimmedQuery = toLowerCase (trim query) in
      if length trimmedQuery = 0 then resources
      else filter (\<lambda>resource.
             if string_includes (toLowerCase (name resource)) trimmedQuery then True
             else if truthy_and_includes toLowerCase (nameJa resource) trimmedQuery then True
             else if string_includes (toLowerCase (description resource)) trimmedQuery then True
             else if truthy_and_includes toLowerCase (descriptionLong resource) trimmedQuery
                  then True
             else if array_some (tags resource)
                       (\<lambda>tag. string_includes (toLowerCase tag) trimmedQuery) then True
             else False)
           resources)"

definition resourceMatchesQuery ::
  "(jsstring \<Rightarrow> jsstring) \<Rightarrow> Resource \<Rightarrow> jsstring \<Rightarrow> bool" where
  "resourceMatchesQuery toLowerCase resource query =
     (let trimmedQuery = toLowerCase (trim query) in
      if length trimmedQuery = 0 then True
      else if string_includes (toLowerCase (name resource)) trimmedQuery then True
      else if truthy_and_includes toLowerCase (nameJa resource) trimmedQuery then True
      else if string_includes (toLowerCase (description resource)) trimmedQuery then True
      else if truthy_and_includes toLowerCase (descriptionLong resource) trimmedQuery then True
      else if array_some (tags resource)
                (\<lambda>tag. string_includes (toLowerCase tag) trimmedQuery) then True
      else False)"

section \<open>Resources: counts (features/Resources/lib/counts)\<close>

text \<open>
  The module \<open>lib/counts\<close> is not among the sources; only its test is. Its three
  functions that the count property speaks of are modelled from the specification. A
  mapping is a list of key-value pairs with distinct keys.
\<close>

text \<open>
  Modelled from the spec: \<open>getCategoryResourceCounts\<close> of the missing module
  \<open>lib/counts\<close>, the mapping from category id to the count of records with that
  category. Its keys are the categories that occur (the test expects an empty mapping
  for no records).
\<close>

definition getCategoryResourceCounts :: "Resource list \<Rightarrow> (CategoryId \<times> nat) list" where
  "getCategoryResourceCounts records =
     map (\<lambda>c. (c, length (filter (\<lambda>r. category r = c) records)))
         (remdups (map category records))"

text \<open>
  Modelled from the spec: \<open>getResourceCountForCategory\<close> of the missing module
  \<open>lib/counts\<close>, the category's own count: the number of records with that category.
\<close>

definition getResourceCountForCategory :: "Resource list \<Rightarrow> CategoryId \<Rightarrow> nat" where
  "getResourceCountForCategory records categoryId =
     length (filter (\<lambda>r. category r = categoryId) records)"

text \<open>
  Modelled from the spec: \<open>getSubcategoryResourceCounts\<close> of the missing module
  \<open>lib/counts\<close>, the mapping scoped to one category, from the subcategory ids that occur
  among the records of that category to the count of those records with that
  subcategory.
\<close>

definition getSubcategoryResourceCounts ::
  "Resource list \<Rightarrow> CategoryId \<Rightarrow> (SubcategoryId \<times> nat) list" where
  "getSubcategoryResourceCounts records categoryId =
     map (\<lambda>s. (s, length (filter (\<lambda>r. category r = categoryId \<and> subcategory r = s) records)))
         (remdups (map subcategory (filter (\<lambda>r. category r = categoryId) records)))"

text \<open>The sum of the values of a mapping.\<close>

definition sumValues :: "('k \<times> nat) list \<Rightarrow> nat" where
  "sumValues counts = sum_list (map snd counts)"

section \<open>Untyped values\<close>

text \<open>
  The values that reach \<open>validateResource\<close> (declared \<open>unknown\<close>) and that \<open>JSON.parse\<close>
  returns: \<open>undefined\<close>, \<open>null\<close>, booleans, numbers, strings, arrays and plain objects. An
  object is the list of its own properties; a property is looked up by its first
  entry.
\<close>

datatype jsval =
    JUndefined
  | JNull
  | JBool bool
  | JNum jsnum
  | JStr jsstring
  | JArr "jsval list"
  | JObj "(jsstring \<times> jsval) list"

fun typeof :: "jsval \<Rightarrow> string" where
  "typeof JUndefined = ''undefined''"
| "typeof JNull = ''object''"
| "typeof (JBool b) = ''boolean''"
| "typeof (JNum n) = ''number''"
| "typeof (JStr s) = ''string''"
| "typeof (JArr xs) = ''object''"
| "typeof (JObj props) = ''object''"

text \<open>\<open>Array.isArray\<close>, the elements of an array, and \<open>Number.isNaN\<close>.\<close>

fun isArray :: "jsval \<Rightarrow> bool" where
  "isArray (JArr xs) = True"
| "isArray v = False"

fun arrayElements :: "jsval \<Rightarrow> jsval list" where
  "arrayElements (JArr xs) = xs"
| "arrayElements v = []"

definition Number_isNaN :: "jsval \<Rightarrow> bool" where
  "Number_isNaN v = (v = JNum NaN)"

text \<open>
  The property access \<open>v[key]\<close> for the keys that the code reads (\<open>id\<close>, \<open>name\<close>, \<open>points\<close>,
  \<open>x\<close> and so on): none of them is an array index, \<open>length\<close>, or a property of
  \<open>Object.prototype\<close> or \<open>Array.prototype\<close>, so the access yields the own property of a
  plain object and \<open>undefined\<close> on an array.
\<close>

fun getProp :: "jsval \<Rightarrow> jsstring \<Rightarrow> jsval" where
  "getProp (JObj props) key = (case map_of props key of Some v \<Rightarrow> v | None \<Rightarrow> JUndefined)"
| "getProp v key = JUndefined"

text \<open>The comparison \<open><\<close> on numbers: every comparison with \<open>NaN\<close> is false.\<close>

fun js_less :: "jsnum \<Rightarrow> jsnum \<Rightarrow> bool" where
  "js_less (Finite a) (Finite b) = (a < b)"
| "js_less NaN m = False"
| "js_less n NaN = False"
| "js_less NegInfinity NegInfinity = False"
| "js_less NegInfinity m = True"
| "js_less PosInfinity m = False"
| "js_less (Finite a) PosInfinity = True"
| "js_less (Finite a) NegInfinity = False"

text \<open>
  Whether the conversion of a value to a string raises \<open>TypeError\<close>, as
  \<open>Array.prototype.join\<close> applies it to each element other than \<open>undefined\<close> and \<open>null\<close>.
  A plain object is converted by \<open>Object.prototype.toString\<close>, unless it has an own
  property \<open>toString\<close>: in a value of this datatype that property is no function, the
  inherited \<open>valueOf\<close> returns the object itself, and the conversion raises. An array is
  converted by joining its elements.
\<close>

fun toStringThrows :: "jsval \<Rightarrow> bool" where
  "toStringThrows (JObj props) = (map_of props (str ''toString'') \<noteq> None)"
| "toStringThrows (JArr xs) = list_ex toStringThrows xs"
| "toStringThrows v = False"

definition joinThrows :: "jsval list \<Rightarrow> bool" where
  "joinThrows xs = list_ex toStringThrows xs"

text \<open>
  The exceptions of the code: \<open>SyntaxError\<close> of \<open>JSON.parse\<close>, \<open>TypeError\<close> of a string
  conversion, and the two errors that \<open>deserialize\<close> throws, whose messages are
  \<open>Invalid stroke data: expected an array\<close> and \<open>Invalid stroke data at index i\<close>.
\<close>

datatype error =
    SyntaxError
  | TypeError
  | ExpectedArray
  | InvalidStrokeAtIndex nat

section \<open>Resources: validation (features/Resources/lib/validateResource)\<close>

definition REQUIRED_RESOURCE_FIELDS :: "jsstring list" where
  "REQUIRED_RESOURCE_FIELDS =
     [str ''id'', str ''name'', str ''description'', str ''category'', str ''subcategory'',
      str ''tags'', str ''difficulty'', str ''priceType'', str ''platforms'', str ''url'']"

text \<open>
  The \<open>reason\<close> of an invalid field is a text built by a template; it is modelled by the
  template and the values it interpolates:
  \<open>Invalid category: v. Must be one of: ...\<close>, the same for difficulty and price type,
  \<open>All tags must be non-empty strings\<close>,
  \<open>Invalid platforms: (the invalid entries, joined). Must be one of: ...\<close>,
  \<open>Rating must be a number between 1 and 5\<close> and \<open>Featured must be a boolean\<close>.
\<close>

datatype reason =
    InvalidCategory jsval
  | InvalidDifficulty jsval
  | InvalidPriceType jsval
  | TagsNotNonEmptyStrings
  | InvalidPlatforms "jsval list"
  | RatingNotBetween1And5
  | FeaturedNotBoolean

record ResourceValidationResult =
  success :: bool
  missingFields :: "jsstring list"
  invalidFields :: "(jsstring \<times> reason) list"

definition isNonEmptyString :: "jsval \<Rightarrow> bool" where
  "isNonEmptyString v = (case v of JStr s \<Rightarrow> length (trim s) > 0 | _ \<Rightarrow> False)"

definition isNonEmptyArray :: "jsval \<Rightarrow> bool" where
  "isNonEmptyArray v = (isArray v \<and> length (arrayElements v) > 0)"

text \<open>
  The two arrays that \<open>validateResource\<close> fills, as a pair, and the two \<open>push\<close>
  operations on them.
\<close>

type_synonym report = "jsstring list \<times> (jsstring \<times> reason) list"

definition pushMissing :: "jsstring \<Rightarrow> report \<Rightarrow> report" where
  "pushMissing field rep = (fst rep @ [field], snd rep)"

definition pushInvalid :: "jsstring \<Rightarrow> reason \<Rightarrow> report \<Rightarrow> report" where
  "pushInvalid field why rep = (fst rep, snd rep @ [(field, why)])"

text \<open>
  \<open>validateResource\<close>, block by block as the comments of the source divide it: the
  required string fields, category, difficulty, price type, tags, platforms, and the
  optional rating and featured. Each block takes the two arrays filled so far and
  returns them with what it pushed. The block for the platforms builds its reason by
  joining the invalid entries, which raises \<open>TypeError\<close> when an entry has no string
  conversion.
\<close>

definition checkStringFields :: "jsval \<Rightarrow> report \<Rightarrow> report" where
  "checkStringFields obj rep =
     (let stringFields =
            [str ''id'', str ''name'', str ''description'', str ''subcategory'', str ''url'']
      in foldl (\<lambda>rep field.
                  if \<not> isNonEmptyString (getProp obj field) then pushMissing field rep
                  else rep)
               rep stringFields)"

definition checkCategory :: "jsval \<Rightarrow> report \<Rightarrow> report" where
  "checkCategory obj rep =
     (if \<not> isNonEmptyString (getProp obj (str ''category''))
      then pushMissing (str ''category'') rep
      else if \<not> array_includes (map JStr CATEGORY_IDS) (getProp obj (str ''category''))
      then pushInvalid (str ''category'') (InvalidCategory (getProp obj (str ''category''))) rep
      else rep)"

definition checkDifficulty :: "jsval \<Rightarrow> report \<Rightarrow> report" where
  "checkDifficulty obj rep =
     (if \<not> isNonEmptyString (getProp obj (str ''difficulty''))
      then pushMissing (str ''difficulty'') rep
      else if \<not> array_includes (map JStr DIFFICULTY_LEVELS) (getProp obj (str ''difficulty''))
      then pushInvalid (str ''difficulty'')
             (InvalidDifficulty (getProp obj (str ''difficulty''))) rep
      else rep)"

definition checkPriceType :: "jsval \<Rightarrow> report \<Rightarrow> report" where
  "checkPriceType obj rep =
     (if \<not> isNonEmptyString (getProp obj (str ''priceType''))
      then pushMissing (str ''priceType'') rep
      else if \<not> array_includes (map JStr PRICE_TYPES) (getProp obj (str ''priceType''))
      then pushInvalid (str ''priceType'')
             (InvalidPriceType (getProp obj (str ''priceType''))) rep
      else rep)"

definition checkTags :: "jsval \<Rightarrow> report \<Rightarrow> report" where
  "checkTags obj rep =
     (if \<not> isNonEmptyArray (getProp obj (str ''tags''))
      then pushMissing (str ''tags'') rep
      else
        let invalidTags =
              filter (\<lambda>tag. case tag of JStr s \<Rightarrow> length (trim s) = 0 | _ \<Rightarrow> True)
                     (arrayElements (getProp obj (str ''tags'')))
        in if length invalidTags > 0
           then pushInvalid (str ''tags'') TagsNotNonEmptyStrings rep
           else rep)"

definition checkPlatforms :: "jsval \<Rightarrow> report \<Rightarrow> error + report" where
  "checkPlatforms obj rep =
     (if \<not> isNonEmptyArray (getProp obj (str ''platforms''))
      then Inr (pushMissing (str ''platforms'') rep)
      else
        let pfs = arrayElements (getProp obj (str ''platforms''));
            invalidPlatforms =
              filter (\<lambda>p. typeof p \<noteq> ''string'' \<or> \<not> array_includes (map JStr PLATFORMS) p)
                     pfs
        in if length invalidPlatforms > 0
           then (if joinThrows invalidPlatforms then Inl TypeError
                 else Inr (pushInvalid (str ''platforms'')
                             (InvalidPlatforms invalidPlatforms) rep))
           else Inr rep)"

definition checkRating :: "jsval \<Rightarrow> report \<Rightarrow> report" where
  "checkRating obj rep =
     (if getProp obj (str ''rating'') \<noteq> JUndefined
      then (case getProp obj (str ''rating'') of
              JNum n \<Rightarrow>
                if js_less n (Finite 1) \<or> js_less (Finite 5) n
                then pushInvalid (str ''rating'') RatingNotBetween1And5 rep
                else rep
            | _ \<Rightarrow> pushInvalid (str ''rating'') RatingNotBetween1And5 rep)
      else rep)"

definition checkFeatured :: "jsval \<Rightarrow> report \<Rightarrow> report" where
  "checkFeatured obj rep =
     (if getProp obj (str ''featured'') \<noteq> JUndefined \<and>
         typeof (getProp obj (str ''featured'')) \<noteq> ''boolean''
      then pushInvalid (str ''featured'') FeaturedNotBoolean rep
      else rep)"

definition validateResource :: "jsval \<Rightarrow> error + ResourceValidationResult" where
  "validateResource resource =
     (if resource = JNull \<or> resource = JUndefined \<or> typeof resource \<noteq> ''object'' then
        Inr \<lparr>success = False, missingFields = REQUIRED_RESOURCE_FIELDS, invalidFields = []\<rparr>
      else
        let obj = resource;
            rep = ([], []);
            rep = checkStringFields obj rep;
            rep = checkCategory obj rep;
            rep = checkDifficulty obj rep;
            rep = checkPriceType obj rep;
            rep = checkTags obj rep
        in case checkPlatforms obj rep of
             Inl e \<Rightarrow> Inl e
           | Inr rep \<Rightarrow>
               let rep = checkRating obj rep;
                   rep = checkFeatured obj rep
               in Inr \<lparr>success = (length (fst rep) = 0 \<and> length (snd rep) = 0),
                        missingFields = fst rep, invalidFields = snd rep\<rparr>)"

text \<open>The entries of the \<open>platforms\<close> array of a value all have a string conversion.\<close>

definition platformsPrintable :: "jsval \<Rightarrow> bool" where
  "platformsPrintable v = (\<not> joinThrows (arrayElements (getProp v (str ''platforms''))))"

text \<open>The result that reports nothing.\<close>

definition validResult :: ResourceValidationResult where
  "validResult = \<lparr>success = True, missingFields = [], invalidFields = []\<rparr>"

text \<open>
  What one block of \<open>validateResource\<close> pushes when it starts from two empty arrays.
\<close>

definition contribution :: "(jsval \<Rightarrow> report \<Rightarrow> report) \<Rightarrow> jsval \<Rightarrow> report" where
  "contribution check obj = check obj ([], [])"

definition platformsContribution :: "jsval \<Rightarrow> error + report" where
  "platformsContribution obj = checkPlatforms obj ([], [])"

text \<open>
  When a field counts as missing and when as invalid: a required string field is missing
  unless it is a non-blank string, a required array field unless it is a non-empty
  array; a field is invalid when it is present in the right shape and its value is
  outside the enumeration (for tags: some tag is no non-blank string; for featured: no
  boolean). For the rating the wording is that of the specification: a rating that is
  present is invalid when it is outside the inclusive range from 1 to 5, and a value
  is inside that range when it is a finite number \<open>r\<close> with \<open>1 \<le> r \<le> 5\<close>; so \<open>NaN\<close>, the
  infinities and every value that is no number are outside.
\<close>

definition ratingInRange :: "jsval \<Rightarrow> bool" where
  "ratingInRange v = (case v of JNum (Finite r) \<Rightarrow> 1 \<le> r \<and> r \<le> 5 | _ \<Rightarrow> False)"

definition fieldMissing :: "jsval \<Rightarrow> jsstring \<Rightarrow> bool" where
  "fieldMissing obj field =
     (if field = str ''tags'' \<or> field = str ''platforms''
      then \<not> isNonEmptyArray (getProp obj field)
      else \<not> isNonEmptyString (getProp obj field))"

definition fieldInvalid :: "jsval \<Rightarrow> jsstring \<Rightarrow> bool" where
  "fieldInvalid obj field =
     (if field = str ''category''
      then isNonEmptyString (getProp obj field) \<and> getProp obj field \<notin> JStr ` set CATEGORY_IDS
      else if field = str ''difficulty''
      then isNonEmptyString (getProp obj field) \<and>
           getProp obj field \<notin> JStr ` set DIFFICULTY_LEVELS
      else if field = str ''priceType''
      then isNonEmptyString (getProp obj field) \<and> getProp obj field \<notin> JStr ` set PRICE_TYPES
      else if field = str ''tags''
      then isNonEmptyArray (getProp obj field) \<and>
           list_ex (\<lambda>tag. \<not> isNonEmptyString tag) (arrayElements (getProp obj field))
      else if field = str ''platforms''
      then isNonEmptyArray (getProp obj field) \<and>
           list_ex (\<lambda>p. p \<notin> JStr ` set PLATFORMS) (arrayElements (getProp obj field))
      else if field = str ''rating''
      then getProp obj field \<noteq> JUndefined \<and> \<not> ratingInRange (getProp obj field)
      else if field = str ''featured''
      then getProp obj field \<noteq> JUndefined \<and> typeof (getProp obj field) \<noteq> ''boolean''
      else False)"

section \<open>Calligraphy: strokes (features/Calligraphy/types, services/strokeSerializer.ts)\<close>

text \<open>
  The fields \<open>x\<close> and \<open>y\<close> of a point are \<open>x_p\<close> and \<open>y_p\<close> here, the field \<open>id\<close> of a stroke
  is \<open>id_s\<close>.
\<close>

record Point =
  x_p :: jsnum
  y_p :: jsnum
  timestamp :: jsnum

record StrokeData =
  id_s :: jsstring
  points :: "Point list"
  startTime :: jsnum
  endTime :: jsnum
  pressure :: "jsnum list option"

text \<open>
  A typed value as the untyped object it is at run time; an absent \<open>pressure\<close> is no
  property.
\<close>

definition ofPoint :: "Point \<Rightarrow> jsval" where
  "ofPoint p =
     JObj [(str ''x'', JNum (x_p p)), (str ''y'', JNum (y_p p)),
           (str ''timestamp'', JNum (timestamp p))]"

definition ofStrokeData :: "StrokeData \<Rightarrow> jsval" where
  "ofStrokeData s =
     JObj ([(str ''id'', JStr (id_s s)),
            (str ''points'', JArr (map ofPoint (points s))),
            (str ''startTime'', JNum (startTime s)),
            (str ''endTime'', JNum (endTime s))] @
           (case pressure s of
              None \<Rightarrow> []
            | Some ps \<Rightarrow> [(str ''pressure'', JArr (map JNum ps))]))"

text \<open>
  JSON text. The encoding of a document as characters (digits, escapes, white space)
  is the business of the run-time system's \<open>JSON\<close> object and is not modelled: a text is
  either no JSON at all, or it is represented by the value that \<open>JSON.parse\<close> returns
  for it.
\<close>

datatype json_text = NotJSON | Text jsval

definition JSON_parse :: "json_text \<Rightarrow> error + jsval" where
  "JSON_parse json = (case json of NotJSON \<Rightarrow> Inl SyntaxError | Text v \<Rightarrow> Inr v)"

text \<open>
  \<open>JSON.stringify\<close>, property by property: a non-finite number is written as \<open>null\<close>; a
  property whose value is \<open>undefined\<close> is left out of an object; \<open>undefined\<close> in an array is
  written as \<open>null\<close>; \<open>undefined\<close> itself has no text, and the result is \<open>undefined\<close> (\<open>None\<close>).
  Finite numbers and strings are written so that \<open>JSON.parse\<close> reads them back.
\<close>

fun isFinite :: "jsnum \<Rightarrow> bool" where
  "isFinite (Finite r) = True"
| "isFinite n = False"

fun serializeJSONProperty :: "jsval \<Rightarrow> jsval option" where
  "serializeJSONProperty JUndefined = None"
| "serializeJSONProperty JNull = Some JNull"
| "serializeJSONProperty (JBool b) = Some (JBool b)"
| "serializeJSONProperty (JNum n) = Some (if isFinite n then JNum n else JNull)"
| "serializeJSONProperty (JStr s) = Some (JStr s)"
| "serializeJSONProperty (JArr xs) =
     Some (JArr (map (\<lambda>x. case serializeJSONProperty x of None \<Rightarrow> JNull | Some d \<Rightarrow> d) xs))"
| "serializeJSONProperty (JObj props) =
     Some (JObj (concat (map (\<lambda>(k, v). case serializeJSONProperty v of
                                          None \<Rightarrow> [] | Some d \<Rightarrow> [(k, d)]) props)))"

definition JSON_stringify :: "jsval \<Rightarrow> json_text option" where
  "JSON_stringify v = map_option Text (serializeJSONProperty v)"

definition isValidPoint :: "jsval \<Rightarrow> bool" where
  "isValidPoint point =
     (if typeof point \<noteq> ''object'' \<or> point = JNull then False
      else
        let p = point in
        typeof (getProp p (str ''x'')) = ''number'' \<and>
        typeof (getProp p (str ''y'')) = ''number'' \<and>
        typeof (getProp p (str ''timestamp'')) = ''number'' \<and>
        \<not> Number_isNaN (getProp p (str ''x'')) \<and>
        \<not> Number_isNaN (getProp p (str ''y'')) \<and>
        \<not> Number_isNaN (getProp p (str ''timestamp'')))"

text \<open>The two \<open>for\<close> loops of \<open>isValidStrokeData\<close>: \<open>False\<close> at the first element that fails.\<close>

fun pointsLoop :: "jsval list \<Rightarrow> bool" where
  "pointsLoop [] = True"
| "pointsLoop (point # rest) = (if \<not> isValidPoint point then False else pointsLoop rest)"

fun pressureLoop :: "jsval list \<Rightarrow> bool" where
  "pressureLoop [] = True"
| "pressureLoop (p # rest) =
     (if typeof p \<noteq> ''number'' \<or> Number_isNaN p then False else pressureLoop rest)"

definition isValidStrokeData :: "jsval \<Rightarrow> bool" where
  "isValidStrokeData stroke =
     (if typeof stroke \<noteq> ''object'' \<or> stroke = JNull then False
      else
        let s = stroke in
        if typeof (getProp s (str ''id'')) \<noteq> ''string'' then False
        else if typeof (getProp s (str ''startTime'')) \<noteq> ''number'' \<or>
                Number_isNaN (getProp s (str ''startTime'')) then False
        else if typeof (getProp s (str ''endTime'')) \<noteq> ''number'' \<or>
                Number_isNaN (getProp s (str ''endTime'')) then False
        else if \<not> isArray (getProp s (str ''points'')) then False
        else if \<not> pointsLoop (arrayElements (getProp s (str ''points''))) then False
        else if getProp s (str ''pressure'') \<noteq> JUndefined then
          (if \<not> isArray (getProp s (str ''pressure'')) then False
           else if \<not> pressureLoop (arrayElements (getProp s (str ''pressure''))) then False
           else True)
        else True)"

definition serialize :: "StrokeData list \<Rightarrow> json_text option" where
  "serialize strokes = JSON_stringify (JArr (map ofStrokeData strokes))"

text \<open>
  The loop of \<open>deserialize\<close> over the indices from \<open>i\<close> on: the error of the first element
  that is no valid stroke, if there is one.
\<close>

fun strokesLoop :: "nat \<Rightarrow> jsval list \<Rightarrow> error option" where
  "strokesLoop i [] = None"
| "strokesLoop i (v # rest) =
     (if \<not> isValidStrokeData v then Some (InvalidStrokeAtIndex i)
      else strokesLoop (Suc i) rest)"

definition deserialize :: "json_text \<Rightarrow> error + jsval" where
  "deserialize json =
     (case JSON_parse json of
        Inl e \<Rightarrow> Inl e
      | Inr parsed \<Rightarrow>
          if \<not> isArray parsed then Inl ExpectedArray
          else (case strokesLoop 0 (arrayElements parsed) of
                  Some e \<Rightarrow> Inl e
                | None \<Rightarrow> Inr parsed))"

text \<open>
  \<open>deserialize(serialize(strokes))\<close>. \<open>JSON.parse\<close> applied to \<open>undefined\<close> raises
  \<open>SyntaxError\<close>.
\<close>

definition roundTrip :: "StrokeData list \<Rightarrow> error + jsval" where
  "roundTrip strokes =
     (case serialize strokes of None \<Rightarrow> Inl SyntaxError | Some json \<Rightarrow> deserialize json)"

text \<open>
  The validity of a stroke as the specification words it, on typed strokes and on
  untyped values: a string id, start and end time numbers other than \<open>NaN\<close>, an array
  of points whose coordinates and timestamp are numbers other than \<open>NaN\<close>, and, if
  \<open>pressure\<close> is present, an array of numbers other than \<open>NaN\<close>. \<open>finiteStroke\<close> asks for
  finite numbers instead.
\<close>

definition validStroke :: "StrokeData \<Rightarrow> bool" where
  "validStroke s =
     (startTime s \<noteq> NaN \<and> endTime s \<noteq> NaN \<and>
      list_all (\<lambda>p. x_p p \<noteq> NaN \<and> y_p p \<noteq> NaN \<and> timestamp p \<noteq> NaN) (points s) \<and>
      (case pressure s of None \<Rightarrow> True | Some ps \<Rightarrow> list_all (\<lambda>n. n \<noteq> NaN) ps))"

definition finiteStroke :: "StrokeData \<Rightarrow> bool" where
  "finiteStroke s =
     (isFinite (startTime s) \<and> isFinite (endTime s) \<and>
      list_all (\<lambda>p. isFinite (x_p p) \<and> isFinite (y_p p) \<and> isFinite (timestamp p)) (points s) \<and>
      (case pressure s of None \<Rightarrow> True | Some ps \<Rightarrow> list_all isFinite ps))"

definition isNumberNotNaN :: "jsval \<Rightarrow> bool" where
  "isNumberNotNaN v = (case v of JNum n \<Rightarrow> n \<noteq> NaN | _ \<Rightarrow> False)"

definition isStringValue :: "jsval \<Rightarrow> bool" where
  "isStringValue v = (case v of JStr s \<Rightarrow> True | _ \<Rightarrow> False)"

definition structurallyValidPoint :: "jsval \<Rightarrow> bool" where
  "structurallyValidPoint p =
     (isNumberNotNaN (getProp p (str ''x'')) \<and> isNumberNotNaN (getProp p (str ''y'')) \<and>
      isNumberNotNaN (getProp p (str ''timestamp'')))"

definition structurallyValid :: "jsval \<Rightarrow> bool" where
  "structurallyValid v =
     (isStringValue (getProp v (str ''id'')) \<and>
      isNumberNotNaN (getProp v (str ''startTime'')) \<and>
      isNumberNotNaN (getProp v (str ''endTime'')) \<and>
      isArray (getProp v (str ''points'')) \<and>
      list_all structurallyValidPoint (arrayElements (getProp v (str ''points''))) \<and>
      (getProp v (str ''pressure'') = JUndefined \<or>
       isArray (getProp v (str ''pressure'')) \<and>
       list_all isNumberNotNaN (arrayElements (getProp v (str ''pressure'')))))"

section \<open>Sample data\<close>

text \<open>
  The two records of the end-to-end scenario, with the remaining fields filled in, and a
  record whose name is \<open>Stra\<close>, U+00DF, \<open>e\<close>.
\<close>

definition resource_a :: Resource where
  "resource_a =
     \<lparr>id_r = str ''a'', name = str ''Anki'', nameJa = None,
      description = str ''Flashcards'', descriptionLong = None,
      category = str ''apps'', subcategory = str ''flashcards'', tags = [str ''srs''],
      difficulty = str ''beginner'', priceType = str ''free'', priceDetails = None,
      platforms = [str ''web''], url = str ''https://a.example'', imageUrl = None,
      rating = None, featured = None, notes_r = None, lastUpdated = None\<rparr>"

definition resource_b :: Resource where
  "resource_b =
     \<lparr>id_r = str ''b'', name = str ''Bunpo'', nameJa = None,
      description = str ''Grammar drills'', descriptionLong = None,
      category = str ''apps'', subcategory = str ''grammar'', tags = [str ''jlpt''],
      difficulty = str ''advanced'', priceType = str ''paid'', priceDetails = None,
      platforms = [str ''ios''], url = str ''https://b.example'', imageUrl = None,
      rating = None, featured = None, notes_r = None, lastUpdated = None\<rparr>"

definition resource_strasse :: Resource where
  "resource_strasse =
     \<lparr>id_r = str ''s'', name = [0x53, 0x74, 0x72, 0x61, 0xDF, 0x65], nameJa = None,
      description = str ''Maps'', descriptionLong = None,
      category = str ''websites'', subcategory = str ''general'', tags = [str ''maps''],
      difficulty = str ''beginner'', priceType = str ''free'', priceDetails = None,
      platforms = [str ''web''], url = str ''https://s.example'', imageUrl = None,
      rating = None, featured = None, notes_r = None, lastUpdated = None\<rparr>"

definition filters_beginner :: ActiveFilters where
  "filters_beginner =
     \<lparr>difficulty_f = [str ''beginner''], priceType_f = [], platforms_f = [],
      search_f = []\<rparr>"

text \<open>A record that passes the validation, as an untyped object.\<close>

definition valid_resource :: "(jsstring \<times> jsval) list" where
  "valid_resource =
     [(str ''id'', JStr (str ''a'')), (str ''name'', JStr (str ''Anki'')),
      (str ''description'', JStr (str ''Flashcards'')), (str ''category'', JStr (str ''apps'')),
      (str ''subcategory'', JStr (str ''flashcards'')), (str ''tags'', JArr [JStr (str ''srs'')]),
      (str ''difficulty'', JStr (str ''beginner'')), (str ''priceType'', JStr (str ''free'')),
      (str ''platforms'', JArr [JStr (str ''web'')]),
      (str ''url'', JStr (str ''https://a.example''))]"

text \<open>A stroke with one point and a pressure value, and a stroke that starts at infinity.\<close>

definition stroke_one :: StrokeData where
  "stroke_one =
     \<lparr>id_s = str ''s1'',
      points = [\<lparr>x_p = Finite 1.5, y_p = Finite 2, timestamp = Finite 10\<rparr>],
      startTime = Finite 10, endTime = Finite 20, pressure = Some [Finite 0.5]\<rparr>"

definition stroke_inf :: StrokeData where
  "stroke_inf =
     \<lparr>id_s = str ''s1'', points = [], startTime = PosInfinity, endTime = Finite 0,
      pressure = None\<rparr>"

section \<open>Properties of the filters\<close>

lemma filterByDifficulty_filter:
  "filterByDifficulty R ds = filter (\<lambda>r. ds = [] \<or> difficulty r \<in> set ds) R"
  by (simp add: filterByDifficulty_def array_includes_def)

lemma filterByPriceType_filter:
  "filterByPriceType R ps = filter (\<lambda>r. ps = [] \<or> priceType r \<in> set ps) R"
  by (simp add: filterByPriceType_def array_includes_def)

lemma filterByPlatform_filter:
  "filterByPlatform R ls =
     filter (\<lambda>r. ls = [] \<or> (\<exists>p \<in> set (platforms r). p \<in> set ls)) R"
  by (simp add: filterByPlatform_def array_includes_def array_some_def list_ex_iff)

lemma applyDimension_filter: "applyDimension d f R = filter (satisfies d f) R"
  by (cases d)
     (auto simp: filterByDifficulty_filter filterByPriceType_filter filterByPlatform_filter
           intro!: filter_cong)

lemma applyInOrder_filter:
  "applyInOrder order f R = filter (\<lambda>r. \<forall>d \<in> set order. satisfies d f r) R"
proof (induction order arbitrary: R)
  case Nil
  show ?case by (simp add: applyInOrder_def)
next
  case (Cons d ds)
  have "applyInOrder (d # ds) f R = applyInOrder ds f (applyDimension d f R)"
    by (simp add: applyInOrder_def)
  also have "\<dots> = filter (\<lambda>r. \<forall>e \<in> set ds. satisfies e f r) (filter (satisfies d f) R)"
    by (simp add: Cons.IH applyDimension_filter)
  also have "\<dots> = filter (\<lambda>r. \<forall>e \<in> set (d # ds). satisfies e f r) R"
    by (simp add: conj_commute)
  finally show ?case .
qed

lemma combineFilters_filter:
  "combineFilters R f =
     filter (\<lambda>r. satisfies Difficulty f r \<and> satisfies PriceType f r \<and> satisfies Platform f r) R"
  by (simp add: combineFilters_def Let_def filterByDifficulty_filter
        filterByPriceType_filter filterByPlatform_filter conj_commute conj_left_commute)

lemmas sample_defs =
  resource_a_def resource_b_def resource_strasse_def filters_beginner_def str_def

text \<open>
  Claim C8. \<open>filterByCategory\<close> returns exactly the elements of its input whose category
  equals the given id, in their order and with their multiplicity; when no record
  matches, the result is the empty array. The function has no failing branch.
\<close>

theorem filterByCategory_exact:
  "filterByCategory R c = [r \<leftarrow> R. category r = c] \<and>
   set (filterByCategory R c) = {r \<in> set R. category r = c} \<and>
   subseq (filterByCategory R c) R \<and>
   length (filterByCategory R c) = length [r \<leftarrow> R. category r = c] \<and>
   ((\<forall>r \<in> set R. category r \<noteq> c) \<longrightarrow> filterByCategory R c = [])"
  by (auto simp: filterByCategory_def filter_empty_conv)

theorem filterByCategory_exact_witness:
  "list_all (\<lambda>r. category r \<noteq> str ''non-existent-category-xyz'') [resource_a, resource_b] \<and>
   filterByCategory [resource_a, resource_b] (str ''non-existent-category-xyz'') = [] \<and>
   filterByCategory [resource_a, resource_b] (str ''apps'') = [resource_a, resource_b]"
proof -
  have h: "\<forall>r \<in> set [resource_a, resource_b]. category r \<noteq> str ''non-existent-category-xyz''"
    by (simp add: sample_defs)
  have a: "[r \<leftarrow> [resource_a, resource_b]. category r = str ''apps''] = [resource_a, resource_b]"
    by (simp add: sample_defs)
  from filterByCategory_exact[of "[resource_a, resource_b]" "str ''non-existent-category-xyz''"] h
       filterByCategory_exact[of "[resource_a, resource_b]" "str ''apps''"] a
  show ?thesis by (simp add: list_all_iff)
qed

text \<open>
  Claim C7. With an empty selector array, \<open>filterByDifficulty\<close>, \<open>filterByPriceType\<close> and
  \<open>filterByPlatform\<close> return their input unchanged. With a non-empty one, each keeps
  exactly the records whose field is a member of the selector array; for platforms,
  the records of which at least one platform is a member.
\<close>

theorem selector_filters_semantics:
  "filterByDifficulty R [] = R \<and> filterByPriceType R [] = R \<and> filterByPlatform R [] = R \<and>
   (ds \<noteq> [] \<longrightarrow> filterByDifficulty R ds = [r \<leftarrow> R. difficulty r \<in> set ds]) \<and>
   (ps \<noteq> [] \<longrightarrow> filterByPriceType R ps = [r \<leftarrow> R. priceType r \<in> set ps]) \<and>
   (ls \<noteq> [] \<longrightarrow> filterByPlatform R ls = [r \<leftarrow> R. \<exists>p \<in> set (platforms r). p \<in> set ls])"
  by (simp add: filterByDifficulty_def filterByPriceType_def filterByPlatform_def
        array_includes_def array_some_def list_ex_iff)

theorem selector_filters_semantics_witness:
  "[str ''beginner''] \<noteq> [] \<and> [str ''paid''] \<noteq> [] \<and> [str ''ios'', str ''api''] \<noteq> [] \<and>
   filterByDifficulty [resource_a, resource_b] [str ''beginner''] = [resource_a] \<and>
   filterByPriceType [resource_a, resource_b] [str ''paid''] = [resource_b] \<and>
   filterByPlatform [resource_a, resource_b] [str ''ios'', str ''api''] = [resource_b]"
  using selector_filters_semantics[of "[resource_a, resource_b]" "[str ''beginner'']"
          "[str ''paid'']" "[str ''ios'', str ''api'']"]
  by (simp add: sample_defs)

text \<open>
  Claim C1. Every record that \<open>combineFilters\<close> returns satisfies every non-empty
  dimension of the active filters; the result is contained in the result of each
  per-dimension filter applied to the same input; and applying the three per-dimension
  filters one after the other, in any order that contains each of them, gives the
  result of \<open>combineFilters\<close>, hence the same set of record ids.
\<close>

theorem combineFilters_conjunction:
  "(\<forall>r \<in> set (combineFilters R f).
      (difficulty_f f \<noteq> [] \<longrightarrow> difficulty r \<in> set (difficulty_f f)) \<and>
      (priceType_f f \<noteq> [] \<longrightarrow> priceType r \<in> set (priceType_f f)) \<and>
      (platforms_f f \<noteq> [] \<longrightarrow> (\<exists>p \<in> set (platforms r). p \<in> set (platforms_f f)))) \<and>
   set (combineFilters R f) \<subseteq> set (filterByDifficulty R (difficulty_f f)) \<and>
   set (combineFilters R f) \<subseteq> set (filterByPriceType R (priceType_f f)) \<and>
   set (combineFilters R f) \<subseteq> set (filterByPlatform R (platforms_f f)) \<and>
   (\<forall>order. set order = {Difficulty, PriceType, Platform} \<longrightarrow>
      applyInOrder order f R = combineFilters R f \<and>
      idSet (applyInOrder order f R) = idSet (combineFilters R f))"
proof -
  have perm: "applyInOrder order f R = combineFilters R f"
    if "set order = {Difficulty, PriceType, Platform}" for order
    using that by (simp add: applyInOrder_filter combineFilters_filter)
  have sat: "\<forall>r \<in> set (combineFilters R f).
      (difficulty_f f \<noteq> [] \<longrightarrow> difficulty r \<in> set (difficulty_f f)) \<and>
      (priceType_f f \<noteq> [] \<longrightarrow> priceType r \<in> set (priceType_f f)) \<and>
      (platforms_f f \<noteq> [] \<longrightarrow> (\<exists>p \<in> set (platforms r). p \<in> set (platforms_f f)))"
    by (auto simp: combineFilters_filter)
  have sub: "set (combineFilters R f) \<subseteq> set (filterByDifficulty R (difficulty_f f))"
     "set (combineFilters R f) \<subseteq> set (filterByPriceType R (priceType_f f))"
     "set (combineFilters R f) \<subseteq> set (filterByPlatform R (platforms_f f))"
    by (auto simp: combineFilters_filter filterByDifficulty_filter filterByPriceType_filter
          filterByPlatform_filter)
  from perm sat sub show ?thesis by simp
qed

theorem combineFilters_conjunction_witness:
  "resource_a \<in> set (combineFilters [resource_a, resource_b] filters_beginner) \<and>
   difficulty_f filters_beginner \<noteq> [] \<and>
   difficulty resource_a \<in> set (difficulty_f filters_beginner) \<and>
   set [Platform, Difficulty, PriceType] = {Difficulty, PriceType, Platform} \<and>
   applyInOrder [Platform, Difficulty, PriceType] filters_beginner [resource_a, resource_b]
     = combineFilters [resource_a, resource_b] filters_beginner \<and>
   combineFilters [resource_a, resource_b] filters_beginner = [resource_a]"
proof -
  have c: "combineFilters [resource_a, resource_b] filters_beginner = [resource_a]"
    by (simp add: combineFilters_def filterByDifficulty_def array_includes_def sample_defs)
  have s: "set [Platform, Difficulty, PriceType] = {Difficulty, PriceType, Platform}"
    by auto
  from combineFilters_conjunction[of "[resource_a, resource_b]" filters_beginner] c s
  show ?thesis by (simp add: filters_beginner_def)
qed

section \<open>Properties of the search\<close>

lemma string_includes_sublist: "string_includes s q = sublist q s"
  by (induction s) (auto simp: sublist_Cons_right)

lemma isWhiteSpace_lowerAscii: "isWhiteSpace (lowerAscii c) = isWhiteSpace c"
  unfolding isWhiteSpace_def lowerAscii_def by auto

lemma isWhiteSpace_upperAscii: "isWhiteSpace (upperAscii c) = isWhiteSpace c"
  unfolding isWhiteSpace_def upperAscii_def by auto

lemma lowerAscii_idem: "lowerAscii (lowerAscii c) = lowerAscii c"
  unfolding lowerAscii_def by auto

lemma lowerAscii_upperAscii: "lowerAscii (upperAscii c) = lowerAscii c"
  unfolding lowerAscii_def upperAscii_def by auto

lemma lowerAscii_below: "c < 128 \<Longrightarrow> lowerAscii c < 128"
  unfolding lowerAscii_def by auto

lemma upperAscii_below: "c < 128 \<Longrightarrow> upperAscii c < 128"
  unfolding upperAscii_def by auto

lemma dropWhile_map_invariant:
  "(\<And>c. P (f c) = P c) \<Longrightarrow> dropWhile P (map f s) = map f (dropWhile P s)"
  by (induction s) auto

lemma trim_map:
  "(\<And>c. isWhiteSpace (f c) = isWhiteSpace c) \<Longrightarrow> trim (map f s) = map f (trim s)"
  by (simp add: trim_def dropWhile_map_invariant rev_map)

lemma set_trim: "set (trim s) \<subseteq> set s"
proof
  fix c assume "c \<in> set (trim s)"
  then have "c \<in> set (dropWhile isWhiteSpace (rev (dropWhile isWhiteSpace s)))"
    by (simp add: trim_def)
  then have "c \<in> set (rev (dropWhile isWhiteSpace s))"
    by (rule set_dropWhileD)
  then have "c \<in> set (dropWhile isWhiteSpace s)" by simp
  then show "c \<in> set s" by (rule set_dropWhileD)
qed

lemma trim_all_whitespace:
  assumes "\<forall>c \<in> set q. isWhiteSpace c"
  shows "trim q = []"
proof -
  from assms have d: "dropWhile isWhiteSpace q = []" by simp
  show ?thesis unfolding trim_def d by simp
qed

lemma asciiCase_on_ascii:
  assumes "asciiCase lc uc" and "\<forall>c \<in> set s. c < 128"
  shows "lc s = map lowerAscii s" and "uc s = map upperAscii s"
  using assms by (simp_all add: asciiCase_def list_all_iff)

lemma asciiCase_empty: "asciiCase lc uc \<Longrightarrow> lc [] = []"
  using asciiCase_on_ascii(1)[of lc uc "[]"] by simp

lemma asciiCase_round_trip:
  assumes a: "asciiCase lc uc" and q: "\<forall>c \<in> set q. c < 128"
  shows "lc (trim (lc q)) = lc (trim q)" and "lc (trim (uc q)) = lc (trim q)"
proof -
  have t: "\<forall>c \<in> set (trim q). c < 128"
    using q set_trim[of q] by auto
  have tl: "\<forall>c \<in> set (map lowerAscii (trim q)). c < 128"
    using t by (auto simp: lowerAscii_below)
  have tu: "\<forall>c \<in> set (map upperAscii (trim q)). c < 128"
    using t by (auto simp: upperAscii_below)
  have "lc (trim (lc q)) = lc (map lowerAscii (trim q))"
    by (simp add: asciiCase_on_ascii(1)[OF a q] trim_map isWhiteSpace_lowerAscii)
  also have "\<dots> = map lowerAscii (map lowerAscii (trim q))"
    by (rule asciiCase_on_ascii(1)[OF a tl])
  also have "\<dots> = map lowerAscii (trim q)"
    by (simp add: lowerAscii_idem)
  also have "\<dots> = lc (trim q)"
    by (rule asciiCase_on_ascii(1)[OF a t, symmetric])
  finally show "lc (trim (lc q)) = lc (trim q)" .
  have "lc (trim (uc q)) = lc (map upperAscii (trim q))"
    by (simp add: asciiCase_on_ascii(2)[OF a q] trim_map isWhiteSpace_upperAscii)
  also have "\<dots> = map lowerAscii (map upperAscii (trim q))"
    by (rule asciiCase_on_ascii(1)[OF a tu])
  also have "\<dots> = map lowerAscii (trim q)"
    by (simp add: lowerAscii_upperAscii)
  also have "\<dots> = lc (trim q)"
    by (rule asciiCase_on_ascii(1)[OF a t, symmetric])
  finally show "lc (trim (uc q)) = lc (trim q)" .
qed

text \<open>The pair of mappings of the examples acts on ASCII as \<open>asciiCase\<close> says.\<close>

lemma latin1_asciiCase: "asciiCase latin1_toLowerCase latin1_toUpperCase"
proof -
  have l: "\<forall>c \<in> set s. c < 128 \<Longrightarrow> latin1_toLowerCase s = map lowerAscii s" for s
    by (induction s) (auto simp: latin1_toLowerCase_def latin1LowerUnit_def lowerAscii_def)
  have u: "\<forall>c \<in> set s. c < 128 \<Longrightarrow> latin1_toUpperCase s = map upperAscii s" for s
    by (induction s) (auto simp: latin1_toUpperCase_def latin1UpperUnit_def upperAscii_def)
  show ?thesis by (simp add: asciiCase_def list_all_iff l u)
qed

lemmas latin1_defs =
  latin1_def latin1_toLowerCase_def latin1_toUpperCase_def latin1LowerUnit_def
  latin1UpperUnit_def

text \<open>
  Claim C3. For a record \<open>r\<close> of the array \<open>R\<close> and any query, \<open>resourceMatchesQuery\<close>
  holds of \<open>r\<close> exactly when \<open>r\<close> is an element of \<open>searchResources R q\<close>, whatever the
  lower-case mapping \<open>lc\<close> of the run-time system is.
\<close>

theorem resourceMatchesQuery_pointwise:
  "r \<in> set R \<Longrightarrow> resourceMatchesQuery lc r q = (r \<in> set (searchResources lc R q))"
  by (simp add: resourceMatchesQuery_def searchResources_def Let_def)

theorem resourceMatchesQuery_pointwise_witness:
  "resource_a \<in> set [resource_a, resource_b] \<and>
   resourceMatchesQuery latin1_toLowerCase resource_a (str ''ANKI '') \<and>
   resource_a \<in> set (searchResources latin1_toLowerCase [resource_a, resource_b] (str ''ANKI ''))"
proof -
  have m: "resourceMatchesQuery latin1_toLowerCase resource_a (str ''ANKI '')"
    by (simp add: resourceMatchesQuery_def Let_def trim_def isWhiteSpace_def latin1_defs
          sample_defs)
  have h: "resource_a \<in> set [resource_a, resource_b]" by simp
  from resourceMatchesQuery_pointwise[OF h, of latin1_toLowerCase "str ''ANKI ''"] m h
  show ?thesis by simp
qed

text \<open>
  What the failure of the case property rests on: for every pair of mappings that takes
  U+00DF to \<open>SS\<close> in upper case and leaves it in lower case, and takes the strings of the
  record to their lower case as written, the query U+00DF finds the record and its
  upper case does not.
\<close>

lemma upper_case_query_misses:
  assumes "uc [0xDF] = [0x53, 0x53]" "lc [0xDF] = [0xDF]" "lc [0x53, 0x53] = [0x73, 0x73]"
    and "lc [0x53, 0x74, 0x72, 0x61, 0xDF, 0x65] = [0x73, 0x74, 0x72, 0x61, 0xDF, 0x65]"
    and "lc (str ''Maps'') = str ''maps''" "lc (str ''maps'') = str ''maps''"
  shows "searchResources lc [resource_strasse] [0xDF] = [resource_strasse]"
    and "searchResources lc [resource_strasse] (uc [0xDF]) = []"
  using assms
  by (simp_all add: searchResources_def Let_def trim_def isWhiteSpace_def
        truthy_and_includes_def array_some_def resource_strasse_def)
     (simp_all add: str_def)

text \<open>
  Claim C4, as stated, fails. The query is the one code unit U+00DF, the record is named
  \<open>Stra\<close>U+00DF\<open>e\<close>; all strings involved are of code units below 256, where the pair of
  mappings of the examples is that of the run-time system. The query finds the
  record; its upper case, \<open>SS\<close>, finds nothing; the two id sets differ.
\<close>

theorem searchResources_upper_case_counterexample:
  "latin1 [0xDF] \<and> latin1 (name resource_strasse) \<and> latin1 (description resource_strasse) \<and>
   list_all latin1 (tags resource_strasse) \<and>
   latin1_toUpperCase [0xDF] = [0x53, 0x53] \<and>
   searchResources latin1_toLowerCase [resource_strasse] [0xDF] = [resource_strasse] \<and>
   searchResources latin1_toLowerCase [resource_strasse] (latin1_toUpperCase [0xDF]) = [] \<and>
   idSet (searchResources latin1_toLowerCase [resource_strasse] (latin1_toUpperCase [0xDF])) \<noteq>
   idSet (searchResources latin1_toLowerCase [resource_strasse] [0xDF])"
  by (simp add: searchResources_def Let_def trim_def isWhiteSpace_def latin1_defs idSet_def
        truthy_and_includes_def array_some_def sample_defs)

text \<open>
  Claim C4, amended; \<open>lc\<close> and \<open>uc\<close> are the lower-case and the upper-case mapping of the
  run-time system. For every query whose lower case, respectively upper case, comes
  back to the same trimmed lower-case query (the round-trip condition), the search with
  the lower-case, respectively upper-case, query gives the result of the search with
  the query itself, hence the same id set. Every query of ASCII characters meets both
  conditions, by what \<open>asciiCase\<close> says of the mappings. The lower case of the empty
  string being empty, the empty query and every query of white space only return the
  input unchanged, and otherwise the result is exactly the records where the trimmed,
  lower-case query occurs in the lower-case name, Japanese name (if present),
  description, long description (if present) or some lower-case tag.
\<close>

theorem searchResources_case_and_identity:
  "(lc (trim (lc q)) = lc (trim q) \<longrightarrow>
      searchResources lc R (lc q) = searchResources lc R q \<and>
      idSet (searchResources lc R (lc q)) = idSet (searchResources lc R q)) \<and>
   (lc (trim (uc q)) = lc (trim q) \<longrightarrow>
      searchResources lc R (uc q) = searchResources lc R q \<and>
      idSet (searchResources lc R (uc q)) = idSet (searchResources lc R q)) \<and>
   (asciiCase lc uc \<and> (\<forall>c \<in> set q. c < 128) \<longrightarrow>
      lc (trim (lc q)) = lc (trim q) \<and> lc (trim (uc q)) = lc (trim q)) \<and>
   (asciiCase lc uc \<longrightarrow> lc [] = []) \<and>
   (lc [] = [] \<longrightarrow> searchResources lc R [] = R) \<and>
   (lc [] = [] \<and> (\<forall>c \<in> set q. isWhiteSpace c) \<longrightarrow> searchResources lc R q = R) \<and>
   (lc [] = [] \<and> lc (trim q) \<noteq> [] \<longrightarrow>
      searchResources lc R q =
        [r \<leftarrow> R.
           sublist (lc (trim q)) (lc (name r)) \<or>
           (\<exists>nj. nameJa r = Some nj \<and> sublist (lc (trim q)) (lc nj)) \<or>
           sublist (lc (trim q)) (lc (description r)) \<or>
           (\<exists>dl. descriptionLong r = Some dl \<and> sublist (lc (trim q)) (lc dl)) \<or>
           (\<exists>tag \<in> set (tags r). sublist (lc (trim q)) (lc tag))])"
proof -
  have same: "searchResources lc R p = searchResources lc R q"
    if "lc (trim p) = lc (trim q)" for p
    using that by (simp add: searchResources_def)
  have empty: "searchResources lc R [] = R" if "lc [] = []"
    using that by (simp add: searchResources_def trim_def)
  have ws: "searchResources lc R q = R" if "lc [] = []" "\<forall>c \<in> set q. isWhiteSpace c"
    using that(1) trim_all_whitespace[OF that(2)] by (simp add: searchResources_def)
  have opt: "truthy_and_includes lc s t = (\<exists>u. s = Some u \<and> sublist t (lc u))"
    if "t \<noteq> []" "lc [] = []" for s t
    using that by (cases s) (auto simp: truthy_and_includes_def string_includes_sublist)
  have char: "searchResources lc R q =
        [r \<leftarrow> R.
           sublist (lc (trim q)) (lc (name r)) \<or>
           (\<exists>nj. nameJa r = Some nj \<and> sublist (lc (trim q)) (lc nj)) \<or>
           sublist (lc (trim q)) (lc (description r)) \<or>
           (\<exists>dl. descriptionLong r = Some dl \<and> sublist (lc (trim q)) (lc dl)) \<or>
           (\<exists>tag \<in> set (tags r). sublist (lc (trim q)) (lc tag))]"
    if e: "lc [] = []" and ne: "lc (trim q) \<noteq> []"
    using ne by (auto simp: searchResources_def Let_def opt[OF ne e] string_includes_sublist
        array_some_def list_ex_iff intro!: filter_cong)
  from same[of "lc q"] same[of "uc q"] asciiCase_round_trip[of lc uc q]
       asciiCase_empty[of lc uc] empty ws char
  show ?thesis by simp
qed

theorem searchResources_case_and_identity_witness:
  "list_all (\<lambda>c. c < 128) (str ''AnKi'') \<and>
   latin1_toLowerCase (trim (latin1_toUpperCase (str ''AnKi''))) =
     latin1_toLowerCase (trim (str ''AnKi'')) \<and>
   idSet (searchResources latin1_toLowerCase [resource_a, resource_b]
            (latin1_toUpperCase (str ''AnKi'')))
     = idSet (searchResources latin1_toLowerCase [resource_a, resource_b] (str ''AnKi'')) \<and>
   latin1_toLowerCase [] = [] \<and>
   list_all isWhiteSpace (str ''   '') \<and>
   searchResources latin1_toLowerCase [resource_a, resource_b] (str ''   '')
     = [resource_a, resource_b] \<and>
   latin1_toLowerCase (trim (str ''AnKi'')) \<noteq> [] \<and>
   searchResources latin1_toLowerCase [resource_a, resource_b] (str ''AnKi'') = [resource_a]"
proof -
  have a: "\<forall>c \<in> set (str ''AnKi''). c < 128" by (simp add: str_def)
  have w: "\<forall>c \<in> set (str ''   ''). isWhiteSpace c" by (simp add: str_def isWhiteSpace_def)
  have n: "latin1_toLowerCase (trim (str ''AnKi'')) \<noteq> []"
    by (simp add: str_def trim_def isWhiteSpace_def latin1_defs)
  have e: "searchResources latin1_toLowerCase [resource_a, resource_b] (str ''AnKi'')
             = [resource_a]"
    by (simp add: searchResources_def Let_def trim_def isWhiteSpace_def latin1_defs
        truthy_and_includes_def array_some_def sample_defs)
  note t1 = searchResources_case_and_identity[where lc = latin1_toLowerCase
              and uc = latin1_toUpperCase and q = "str ''AnKi''"
              and R = "[resource_a, resource_b]"]
  note t2 = searchResources_case_and_identity[where lc = latin1_toLowerCase
              and uc = latin1_toUpperCase and q = "str ''   ''"
              and R = "[resource_a, resource_b]"]
  have r: "latin1_toLowerCase (trim (latin1_toUpperCase (str ''AnKi''))) =
     latin1_toLowerCase (trim (str ''AnKi''))"
    using t1 latin1_asciiCase a by blast
  have i: "idSet (searchResources latin1_toLowerCase [resource_a, resource_b]
            (latin1_toUpperCase (str ''AnKi'')))
     = idSet (searchResources latin1_toLowerCase [resource_a, resource_b] (str ''AnKi''))"
    using t1 r by blast
  have z: "latin1_toLowerCase [] = []"
    using t1 latin1_asciiCase by blast
  have s: "searchResources latin1_toLowerCase [resource_a, resource_b] (str ''   '')
     = [resource_a, resource_b]"
    using t2 z w by blast
  from a w n e r i z s show ?thesis by (simp add: list_all_iff)
qed

text \<open>
  Claim C10. Each filter and the search (whatever the lower-case mapping \<open>lc\<close> of the
  run-time system is) return a subsequence of the input array: the records kept are
  records of the input, in their original relative order, none duplicated, none
  changed.
\<close>

theorem filters_return_subsequences:
  "subseq (filterByCategory R c) R \<and>
   subseq (filterBySubcategory R s) R \<and>
   subseq (filterByCategoryAndSubcategory R c s) R \<and>
   subseq (filterByDifficulty R ds) R \<and>
   subseq (filterByPriceType R ps) R \<and>
   subseq (filterByPlatform R ls) R \<and>
   subseq (combineFilters R f) R \<and>
   subseq (searchResources lc R q) R"
  by (simp add: filterByCategory_def filterBySubcategory_def filterByCategoryAndSubcategory_def
        filterByDifficulty_filter filterByPriceType_filter filterByPlatform_filter
        combineFilters_filter searchResources_def Let_def)

section \<open>Properties of the counts\<close>

lemma sum_list_indicator:
  "distinct ks \<Longrightarrow>
   sum_list (map (\<lambda>k. if a = k then (1::nat) else 0) ks) = (if a \<in> set ks then 1 else 0)"
  by (induction ks) auto

lemma sum_list_counts:
  "distinct ks \<Longrightarrow> set (map g xs) \<subseteq> set ks \<Longrightarrow>
   sum_list (map (\<lambda>k. length (filter (\<lambda>x. g x = k) xs)) ks) = length xs"
proof (induction xs)
  case Nil
  then show ?case by simp
next
  case (Cons x xs)
  have "sum_list (map (\<lambda>k. length (filter (\<lambda>y. g y = k) (x # xs))) ks)
      = sum_list (map (\<lambda>k. (if g x = k then 1 else 0) + length (filter (\<lambda>y. g y = k) xs)) ks)"
    by (intro arg_cong[where f=sum_list] map_cong) auto
  also have "\<dots> = sum_list (map (\<lambda>k. if g x = k then 1 else 0) ks)
                  + sum_list (map (\<lambda>k. length (filter (\<lambda>y. g y = k) xs)) ks)"
    by (simp add: sum_list_addf)
  also have "sum_list (map (\<lambda>k. if g x = k then 1 else 0) ks) = (1::nat)"
    using Cons.prems by (simp add: sum_list_indicator)
  finally show ?case using Cons by simp
qed

text \<open>
  Claim C9. The values of \<open>getCategoryResourceCounts R\<close> add up to the length of \<open>R\<close>, and
  the values of \<open>getSubcategoryResourceCounts R c\<close> add up to
  \<open>getResourceCountForCategory R c\<close>.
\<close>

theorem counts_sum:
  "sumValues (getCategoryResourceCounts R) = length R \<and>
   sumValues (getSubcategoryResourceCounts R c) = getResourceCountForCategory R c"
proof -
  have "sumValues (getCategoryResourceCounts R) =
        sum_list (map (\<lambda>k. length (filter (\<lambda>r. category r = k) R)) (remdups (map category R)))"
    by (simp add: sumValues_def getCategoryResourceCounts_def comp_def)
  also have "\<dots> = length R"
    by (rule sum_list_counts) simp_all
  finally have one: "sumValues (getCategoryResourceCounts R) = length R" .
  let ?S = "filter (\<lambda>r. category r = c) R"
  have "sumValues (getSubcategoryResourceCounts R c) =
        sum_list (map (\<lambda>k. length (filter (\<lambda>r. subcategory r = k) ?S))
                      (remdups (map subcategory ?S)))"
    by (simp add: sumValues_def getSubcategoryResourceCounts_def comp_def conj_commute)
  also have "\<dots> = length ?S"
    by (rule sum_list_counts) simp_all
  finally have two:
    "sumValues (getSubcategoryResourceCounts R c) = getResourceCountForCategory R c"
    by (simp add: getResourceCountForCategory_def)
  from one two show ?thesis by simp
qed

section \<open>Properties of the stroke serializer\<close>

lemma str_eq_iff [simp]: "str a = str b \<longleftrightarrow> a = b"
  by (simp add: str_def inj_map_eq_map inj_of_char)

lemma pointsLoop_all: "pointsLoop xs = list_all isValidPoint xs"
  by (induction xs) auto

lemma pressureLoop_all: "pressureLoop xs = list_all isNumberNotNaN xs"
  by (induction xs) (auto simp: isNumberNotNaN_def Number_isNaN_def split: jsval.splits)

lemma typeof_number: "typeof v = ''number'' \<and> \<not> Number_isNaN v \<longleftrightarrow> isNumberNotNaN v"
  by (cases v) (auto simp: isNumberNotNaN_def Number_isNaN_def)

lemma typeof_string: "typeof v = ''string'' \<longleftrightarrow> isStringValue v"
  by (cases v) (auto simp: isStringValue_def)

lemma isValidPoint_structurally: "isValidPoint p = structurallyValidPoint p"
proof (cases p)
  case (JObj props)
  then show ?thesis
    using typeof_number[of "getProp p (str ''x'')"] typeof_number[of "getProp p (str ''y'')"]
          typeof_number[of "getProp p (str ''timestamp'')"]
    by (auto simp: isValidPoint_def structurallyValidPoint_def Let_def)
qed (simp_all add: isValidPoint_def structurallyValidPoint_def isNumberNotNaN_def)

lemma isValidStrokeData_structurally: "isValidStrokeData v = structurallyValid v"
proof (cases v)
  case (JObj props)
  then show ?thesis
    using typeof_number[of "getProp v (str ''startTime'')"]
          typeof_number[of "getProp v (str ''endTime'')"]
          typeof_string[of "getProp v (str ''id'')"]
    by (auto simp: isValidStrokeData_def structurallyValid_def Let_def pointsLoop_all
          pressureLoop_all isValidPoint_structurally list_all_iff)
qed (simp_all add: isValidStrokeData_def structurallyValid_def isStringValue_def)

lemma strokesLoop_None: "strokesLoop i xs = None \<longleftrightarrow> list_all isValidStrokeData xs"
  by (induction xs arbitrary: i) auto

lemma strokesLoop_Some:
  "strokesLoop i xs = Some e \<longleftrightarrow>
     (\<exists>j < length xs. \<not> isValidStrokeData (xs ! j) \<and>
        (\<forall>k < j. isValidStrokeData (xs ! k)) \<and> e = InvalidStrokeAtIndex (i + j))"
proof (induction xs arbitrary: i)
  case Nil
  then show ?case by simp
next
  case (Cons v rest)
  show ?case
  proof (cases "isValidStrokeData v")
    case False
    then show ?thesis
      by (auto intro!: exI[of _ 0]) (metis not_gr_zero nth_Cons_0)
  next
    case True
    have "strokesLoop i (v # rest) = Some e \<longleftrightarrow> strokesLoop (Suc i) rest = Some e"
      using True by simp
    also have "\<dots> \<longleftrightarrow> (\<exists>j < length rest. \<not> isValidStrokeData (rest ! j) \<and>
        (\<forall>k < j. isValidStrokeData (rest ! k)) \<and> e = InvalidStrokeAtIndex (Suc i + j))"
      by (rule Cons.IH)
    also have "\<dots> \<longleftrightarrow> (\<exists>j < length (v # rest). \<not> isValidStrokeData ((v # rest) ! j) \<and>
        (\<forall>k < j. isValidStrokeData ((v # rest) ! k)) \<and> e = InvalidStrokeAtIndex (i + j))"
      (is "?L \<longleftrightarrow> ?R")
    proof
      assume ?L
      then obtain j where j: "j < length rest" "\<not> isValidStrokeData (rest ! j)"
        "\<forall>k < j. isValidStrokeData (rest ! k)" "e = InvalidStrokeAtIndex (Suc i + j)" by blast
      have "\<forall>k < Suc j. isValidStrokeData ((v # rest) ! k)"
        using j(3) True by (auto simp: nth_Cons split: nat.splits)
      with j show ?R by (intro exI[of _ "Suc j"]) auto
    next
      assume ?R
      then obtain j where j: "j < length (v # rest)" "\<not> isValidStrokeData ((v # rest) ! j)"
        "\<forall>k < j. isValidStrokeData ((v # rest) ! k)" "e = InvalidStrokeAtIndex (i + j)" by blast
      from j(2) True obtain j' where j': "j = Suc j'" by (cases j) auto
      have "\<forall>k < j'. isValidStrokeData (rest ! k)"
        using j(3) j' by (metis Suc_less_eq nth_Cons_Suc)
      with j j' show ?L by (intro exI[of _ j']) auto
    qed
    finally show ?thesis .
  qed
qed

text \<open>
  Claim C6. \<open>deserialize\<close> throws exactly when its input is no JSON text, or the parsed
  value is no array, or some element of the array is not structurally valid. In the
  last case the error carries the index of the first such element (and whenever that
  error is thrown, the element at its index is not valid). When \<open>deserialize\<close> does not
  throw it returns the parsed value. The check of the code, \<open>isValidStrokeData\<close>,
  is the structural validity as the specification words it.
\<close>

theorem deserialize_throws_exactly:
  "((\<exists>e. deserialize json = Inl e) \<longleftrightarrow>
      (json = NotJSON \<or>
       (\<exists>v. json = Text v \<and>
          (\<not> isArray v \<or>
           (\<exists>i < length (arrayElements v). \<not> structurallyValid (arrayElements v ! i)))))) \<and>
   (deserialize NotJSON = Inl SyntaxError) \<and>
   (\<not> isArray v \<longrightarrow> deserialize (Text v) = Inl ExpectedArray) \<and>
   (i < length xs \<and> \<not> structurallyValid (xs ! i) \<and> (\<forall>k < i. structurallyValid (xs ! k)) \<longrightarrow>
      deserialize (Text (JArr xs)) = Inl (InvalidStrokeAtIndex i)) \<and>
   (deserialize (Text (JArr xs)) = Inl (InvalidStrokeAtIndex i) \<longrightarrow>
      i < length xs \<and> \<not> structurallyValid (xs ! i)) \<and>
   (deserialize json = Inr w \<longrightarrow> json = Text w \<and> JSON_parse json = Inr w) \<and>
   isValidStrokeData v = structurallyValid v"
proof -
  have arr: "deserialize (Text (JArr ys)) =
      (case strokesLoop 0 ys of Some e \<Rightarrow> Inl e | None \<Rightarrow> Inr (JArr ys))" for ys
    by (simp add: deserialize_def JSON_parse_def)
  have notarr: "deserialize (Text u) = Inl ExpectedArray" if "\<not> isArray u" for u
    using that by (simp add: deserialize_def JSON_parse_def)
  have nojson: "deserialize NotJSON = Inl SyntaxError"
    by (simp add: deserialize_def JSON_parse_def)
  have at: "deserialize (Text (JArr xs)) = Inl (InvalidStrokeAtIndex i)"
    if "i < length xs" "\<not> structurallyValid (xs ! i)" "\<forall>k < i. structurallyValid (xs ! k)"
  proof -
    have "strokesLoop 0 xs = Some (InvalidStrokeAtIndex i)"
      using that by (auto simp: strokesLoop_Some isValidStrokeData_structurally)
    then show ?thesis by (simp add: arr)
  qed
  have at': "i < length xs \<and> \<not> structurallyValid (xs ! i)"
    if "deserialize (Text (JArr xs)) = Inl (InvalidStrokeAtIndex i)"
  proof -
    from that have "strokesLoop 0 xs = Some (InvalidStrokeAtIndex i)"
      by (simp add: arr split: option.splits)
    then show ?thesis by (auto simp: strokesLoop_Some isValidStrokeData_structurally)
  qed
  have ok: "json = Text w \<and> JSON_parse json = Inr w" if "deserialize json = Inr w"
    using that by (cases json) (auto simp: deserialize_def JSON_parse_def split: if_splits option.splits)
  have iff: "(\<exists>e. deserialize json = Inl e) \<longleftrightarrow>
      (json = NotJSON \<or>
       (\<exists>v. json = Text v \<and>
          (\<not> isArray v \<or>
           (\<exists>i < length (arrayElements v). \<not> structurallyValid (arrayElements v ! i)))))"
  proof (cases json)
    case NotJSON
    then show ?thesis by (simp add: nojson)
  next
    case (Text u)
    show ?thesis
    proof (cases u)
      case (JArr ys)
      have "(\<exists>e. deserialize json = Inl e) \<longleftrightarrow> strokesLoop 0 ys \<noteq> None"
        using Text JArr by (auto simp: arr split: option.splits)
      also have "\<dots> \<longleftrightarrow> \<not> list_all isValidStrokeData ys"
        by (simp add: strokesLoop_None)
      also have "\<dots> \<longleftrightarrow> (\<exists>i < length ys. \<not> structurallyValid (ys ! i))"
        by (auto simp: list_all_length isValidStrokeData_structurally)
      finally show ?thesis using Text JArr by simp
    qed (use Text in \<open>simp_all add: notarr\<close>)
  qed
  from iff nojson notarr[of v] at at' ok isValidStrokeData_structurally[of v]
  show ?thesis by blast
qed

lemma serialize_point:
  "isFinite (x_p p) \<Longrightarrow> isFinite (y_p p) \<Longrightarrow> isFinite (timestamp p) \<Longrightarrow>
   serializeJSONProperty (ofPoint p) = Some (ofPoint p)"
  by (simp add: ofPoint_def)

lemma serialize_stroke:
  "finiteStroke s \<Longrightarrow> serializeJSONProperty (ofStrokeData s) = Some (ofStrokeData s)"
  by (cases "pressure s")
     (auto simp: ofStrokeData_def finiteStroke_def list_all_iff serialize_point)

lemma serialize_strokes:
  "list_all finiteStroke S \<Longrightarrow>
   serializeJSONProperty (JArr (map ofStrokeData S)) = Some (JArr (map ofStrokeData S))"
  by (auto simp: list_all_iff serialize_stroke)

lemma isFinite_not_NaN: "isFinite n \<Longrightarrow> n \<noteq> NaN"
  by (cases n) auto

lemma finite_valid: "finiteStroke s \<Longrightarrow> validStroke s"
  by (auto simp: finiteStroke_def validStroke_def list_all_iff isFinite_not_NaN split: option.splits)

lemma valid_point: "structurallyValidPoint (ofPoint p) = (x_p p \<noteq> NaN \<and> y_p p \<noteq> NaN \<and> timestamp p \<noteq> NaN)"
  by (simp add: structurallyValidPoint_def ofPoint_def isNumberNotNaN_def)

lemma valid_stroke: "isValidStrokeData (ofStrokeData s) = validStroke s"
  by (cases "pressure s")
     (auto simp: isValidStrokeData_structurally structurallyValid_def ofStrokeData_def
        validStroke_def isStringValue_def isNumberNotNaN_def list_all_iff valid_point)

lemma ofPoint_inj: "ofPoint p = ofPoint q \<Longrightarrow> p = q"
  by (simp add: ofPoint_def)

lemma ofStrokeData_inj: "inj ofStrokeData"
proof (rule injI)
  fix s t assume eq: "ofStrokeData s = ofStrokeData t"
  have points: "points s = points t"
    using eq by (auto simp: ofStrokeData_def inj_map_eq_map inj_def ofPoint_def split: option.splits)
  have press: "pressure s = pressure t"
    using eq by (auto simp: ofStrokeData_def inj_map_eq_map inj_def split: option.splits)
  from eq points press show "s = t"
    by (auto simp: ofStrokeData_def split: option.splits)
qed

text \<open>
  Claim C2, amended. \<open>serialize\<close> always returns JSON text. For every array of strokes
  whose numbers are all finite (such strokes are valid), the text is that of the
  array itself and \<open>deserialize\<close> returns the array, field for field: typed strokes
  with the same untyped form are equal. The empty array and the arrays of one stroke
  are instances.
\<close>

theorem stroke_round_trip_finite:
  "(\<exists>json v. serialize S = Some json \<and> JSON_parse json = Inr v) \<and>
   (list_all finiteStroke S \<longrightarrow>
      list_all validStroke S \<and>
      serialize S = Some (Text (JArr (map ofStrokeData S))) \<and>
      roundTrip S = Inr (JArr (map ofStrokeData S))) \<and>
   roundTrip [] = Inr (JArr []) \<and>
   (finiteStroke s \<longrightarrow> roundTrip [s] = Inr (JArr [ofStrokeData s])) \<and>
   inj ofStrokeData"
proof -
  have valid_json: "\<exists>json v. serialize S = Some json \<and> JSON_parse json = Inr v"
    by (simp add: serialize_def JSON_stringify_def JSON_parse_def)
  have rt: "list_all validStroke T \<and>
      serialize T = Some (Text (JArr (map ofStrokeData T))) \<and>
      roundTrip T = Inr (JArr (map ofStrokeData T))" if fin: "list_all finiteStroke T" for T
  proof -
    have v: "list_all validStroke T"
      using fin by (auto simp: list_all_iff finite_valid)
    have s: "serialize T = Some (Text (JArr (map ofStrokeData T)))"
      using serialize_strokes[OF fin] by (simp add: serialize_def JSON_stringify_def)
    have "strokesLoop 0 (map ofStrokeData T) = None"
      using v by (simp add: strokesLoop_None list_all_iff valid_stroke)
    then have "roundTrip T = Inr (JArr (map ofStrokeData T))"
      by (simp add: roundTrip_def s deserialize_def JSON_parse_def)
    with v s show ?thesis by simp
  qed
  from valid_json rt[of S] rt[of "[]"] rt[of "[s]"] ofStrokeData_inj show ?thesis by simp
qed

text \<open>
  Claim C2, as stated, fails: a stroke whose start time is infinity is valid (the time
  is a number other than \<open>NaN\<close>), \<open>JSON.stringify\<close> writes \<open>null\<close> for it, and
  \<open>deserialize\<close> throws at index 0.
\<close>

theorem stroke_round_trip_infinity_counterexample:
  "list_all validStroke [stroke_inf] \<and> roundTrip [stroke_inf] = Inl (InvalidStrokeAtIndex 0)"
  by (simp add: stroke_inf_def validStroke_def roundTrip_def serialize_def JSON_stringify_def
        ofStrokeData_def deserialize_def JSON_parse_def isValidStrokeData_def Let_def)

theorem stroke_round_trip_finite_witness:
  "list_all finiteStroke [stroke_one] \<and>
   roundTrip [stroke_one] = Inr (JArr [ofStrokeData stroke_one])"
proof -
  have f: "list_all finiteStroke [stroke_one]"
    by (simp add: stroke_one_def finiteStroke_def)
  from stroke_round_trip_finite[of "[stroke_one]" stroke_one] f show ?thesis by simp
qed

theorem deserialize_throws_exactly_witness:
  "deserialize (Text (JArr [ofStrokeData stroke_one, JNull])) = Inl (InvalidStrokeAtIndex 1) \<and>
   deserialize (Text (JObj [])) = Inl ExpectedArray \<and>
   deserialize (Text (JArr [ofStrokeData stroke_one])) = Inr (JArr [ofStrokeData stroke_one])"
proof -
  have v: "structurallyValid (ofStrokeData stroke_one)"
    by (simp add: structurallyValid_def ofStrokeData_def stroke_one_def isStringValue_def
          isNumberNotNaN_def structurallyValidPoint_def ofPoint_def)
  have n: "\<not> structurallyValid JNull"
    by (simp add: structurallyValid_def isStringValue_def)
  have a: "\<not> isArray (JObj [])" by simp
  have d: "deserialize (Text (JArr [ofStrokeData stroke_one])) = Inr (JArr [ofStrokeData stroke_one])"
    using v by (simp add: deserialize_def JSON_parse_def isValidStrokeData_structurally)
  from deserialize_throws_exactly[of "Text (JArr [ofStrokeData stroke_one, JNull])" "JObj []" 1 "[ofStrokeData stroke_one, JNull]"]
       v n a d
  show ?thesis by (simp add: nth_Cons')
qed

section \<open>Properties of the validation\<close>

lemma push_simps:
  "fst (pushMissing f rep) = fst rep @ [f]" "snd (pushMissing f rep) = snd rep"
  "fst (pushInvalid f w rep) = fst rep" "snd (pushInvalid f w rep) = snd rep @ [(f, w)]"
  by (simp_all add: pushMissing_def pushInvalid_def)

lemma checkStringField_add:
  "(if c then pushMissing f rep else rep) = (fst rep @ (if c then [f] else []), snd rep)"
  by (simp add: pushMissing_def)

lemma checkStringFields_add:
  "checkStringFields obj rep =
     (fst rep @ fst (contribution checkStringFields obj), snd rep @ snd (contribution checkStringFields obj))"
  unfolding contribution_def checkStringFields_def Let_def foldl_Cons foldl_Nil checkStringField_add
  by simp

lemma checkCategory_add:
  "checkCategory obj rep =
     (fst rep @ fst (contribution checkCategory obj), snd rep @ snd (contribution checkCategory obj))"
  by (simp add: contribution_def checkCategory_def pushMissing_def pushInvalid_def)

lemma checkDifficulty_add:
  "checkDifficulty obj rep =
     (fst rep @ fst (contribution checkDifficulty obj), snd rep @ snd (contribution checkDifficulty obj))"
  by (simp add: contribution_def checkDifficulty_def pushMissing_def pushInvalid_def)

lemma checkPriceType_add:
  "checkPriceType obj rep =
     (fst rep @ fst (contribution checkPriceType obj), snd rep @ snd (contribution checkPriceType obj))"
  by (simp add: contribution_def checkPriceType_def pushMissing_def pushInvalid_def)

lemma checkTags_add:
  "checkTags obj rep =
     (fst rep @ fst (contribution checkTags obj), snd rep @ snd (contribution checkTags obj))"
  by (simp add: contribution_def checkTags_def pushMissing_def pushInvalid_def Let_def)

lemma checkRating_add:
  "checkRating obj rep =
     (fst rep @ fst (contribution checkRating obj), snd rep @ snd (contribution checkRating obj))"
  by (simp add: contribution_def checkRating_def pushMissing_def pushInvalid_def split: jsval.splits)

lemma checkFeatured_add:
  "checkFeatured obj rep =
     (fst rep @ fst (contribution checkFeatured obj), snd rep @ snd (contribution checkFeatured obj))"
  by (simp add: contribution_def checkFeatured_def pushMissing_def pushInvalid_def)

lemma checkPlatforms_add:
  "checkPlatforms obj rep =
     (case platformsContribution obj of
        Inl e \<Rightarrow> Inl e
      | Inr c \<Rightarrow> Inr (fst rep @ fst c, snd rep @ snd c))"
  by (simp add: platformsContribution_def checkPlatforms_def pushMissing_def pushInvalid_def Let_def)

lemma validateResource_object:
  assumes "typeof obj = ''object''" "obj \<noteq> JNull"
  shows "validateResource obj =
     (case platformsContribution obj of
        Inl e \<Rightarrow> Inl e
      | Inr cp \<Rightarrow>
          Inr \<lparr>success =
                 (fst (contribution checkStringFields obj) @ fst (contribution checkCategory obj) @
                  fst (contribution checkDifficulty obj) @ fst (contribution checkPriceType obj) @
                  fst (contribution checkTags obj) @ fst cp @
                  fst (contribution checkRating obj) @ fst (contribution checkFeatured obj) = [] \<and>
                  snd (contribution checkStringFields obj) @ snd (contribution checkCategory obj) @
                  snd (contribution checkDifficulty obj) @ snd (contribution checkPriceType obj) @
                  snd (contribution checkTags obj) @ snd cp @
                  snd (contribution checkRating obj) @ snd (contribution checkFeatured obj) = []),
               missingFields =
                  fst (contribution checkStringFields obj) @ fst (contribution checkCategory obj) @
                  fst (contribution checkDifficulty obj) @ fst (contribution checkPriceType obj) @
                  fst (contribution checkTags obj) @ fst cp @
                  fst (contribution checkRating obj) @ fst (contribution checkFeatured obj),
               invalidFields =
                  snd (contribution checkStringFields obj) @ snd (contribution checkCategory obj) @
                  snd (contribution checkDifficulty obj) @ snd (contribution checkPriceType obj) @
                  snd (contribution checkTags obj) @ snd cp @
                  snd (contribution checkRating obj) @ snd (contribution checkFeatured obj)\<rparr>)"
proof -
  have obj: "\<not> (obj = JNull \<or> obj = JUndefined \<or> typeof obj \<noteq> ''object'')"
    using assms by auto
  show ?thesis
    unfolding validateResource_def if_not_P[OF obj] Let_def
    apply (simp only: checkStringFields_add checkCategory_add checkDifficulty_add
             checkPriceType_add checkTags_add checkPlatforms_add checkRating_add
             checkFeatured_add)
    apply (cases "platformsContribution obj")
     apply simp_all
    done
qed

lemma contribution_sides:
  "snd (contribution checkStringFields obj) = []"
  "fst (contribution checkRating obj) = []"
  "fst (contribution checkFeatured obj) = []"
  by (simp_all add: contribution_def checkStringFields_def checkRating_def checkFeatured_def
        pushMissing_def pushInvalid_def Let_def split: jsval.splits)

lemma joinThrows_filter: "joinThrows (filter P xs) \<Longrightarrow> joinThrows xs"
  by (auto simp: joinThrows_def list_ex_iff)

lemma platformsContribution_Inr:
  "platformsPrintable obj \<Longrightarrow> \<exists>c. platformsContribution obj = Inr c"
  by (auto simp: platformsPrintable_def platformsContribution_def checkPlatforms_def Let_def
        dest: joinThrows_filter)

lemma validateResource_returns:
  assumes "platformsPrintable v"
  shows "\<exists>res. validateResource v = Inr res"
proof (cases "typeof v = ''object'' \<and> v \<noteq> JNull")
  case True
  from platformsContribution_Inr[OF assms] obtain c where "platformsContribution v = Inr c" ..
  then show ?thesis using True by (simp add: validateResource_object)
next
  case False
  then have "v = JNull \<or> v = JUndefined \<or> typeof v \<noteq> ''object''" by auto
  then show ?thesis by (auto simp: validateResource_def)
qed

lemma frame_checkStringFields:
  "k0 \<notin> {str ''id'', str ''name'', str ''description'', str ''subcategory'', str ''url''} \<Longrightarrow>
   contribution checkStringFields (JObj ((k0, v) # props)) = contribution checkStringFields (JObj props)"
  by (auto simp: contribution_def checkStringFields_def)

lemma frame_checkCategory:
  "k0 \<noteq> str ''category'' \<Longrightarrow>
   contribution checkCategory (JObj ((k0, v) # props)) = contribution checkCategory (JObj props)"
  by (simp add: contribution_def checkCategory_def)

lemma frame_checkDifficulty:
  "k0 \<noteq> str ''difficulty'' \<Longrightarrow>
   contribution checkDifficulty (JObj ((k0, v) # props)) = contribution checkDifficulty (JObj props)"
  by (simp add: contribution_def checkDifficulty_def)

lemma frame_checkPriceType:
  "k0 \<noteq> str ''priceType'' \<Longrightarrow>
   contribution checkPriceType (JObj ((k0, v) # props)) = contribution checkPriceType (JObj props)"
  by (simp add: contribution_def checkPriceType_def)

lemma frame_checkTags:
  "k0 \<noteq> str ''tags'' \<Longrightarrow>
   contribution checkTags (JObj ((k0, v) # props)) = contribution checkTags (JObj props)"
  by (simp add: contribution_def checkTags_def)

lemma frame_checkPlatforms:
  "k0 \<noteq> str ''platforms'' \<Longrightarrow>
   platformsContribution (JObj ((k0, v) # props)) = platformsContribution (JObj props)"
  by (simp add: platformsContribution_def checkPlatforms_def)

lemma frame_checkRating:
  "k0 \<noteq> str ''rating'' \<Longrightarrow>
   contribution checkRating (JObj ((k0, v) # props)) = contribution checkRating (JObj props)"
  by (simp add: contribution_def checkRating_def)

lemma frame_checkFeatured:
  "k0 \<noteq> str ''featured'' \<Longrightarrow>
   contribution checkFeatured (JObj ((k0, v) # props)) = contribution checkFeatured (JObj props)"
  by (simp add: contribution_def checkFeatured_def)

lemmas frame_checks = frame_checkStringFields frame_checkCategory frame_checkDifficulty
  frame_checkPriceType frame_checkTags frame_checkPlatforms frame_checkRating frame_checkFeatured

lemma valid_contributions:
  assumes "validateResource (JObj props) = Inr validResult"
  shows "contribution checkStringFields (JObj props) = ([], [])"
    "contribution checkCategory (JObj props) = ([], [])"
    "contribution checkDifficulty (JObj props) = ([], [])"
    "contribution checkPriceType (JObj props) = ([], [])"
    "contribution checkTags (JObj props) = ([], [])"
    "platformsContribution (JObj props) = Inr ([], [])"
    "contribution checkRating (JObj props) = ([], [])"
    "contribution checkFeatured (JObj props) = ([], [])"
proof -
  obtain cp where cp: "platformsContribution (JObj props) = Inr cp"
    using assms by (cases "platformsContribution (JObj props)") (simp_all add: validateResource_object)
  from assms cp have
    "fst (contribution checkStringFields (JObj props)) @ fst (contribution checkCategory (JObj props)) @
     fst (contribution checkDifficulty (JObj props)) @ fst (contribution checkPriceType (JObj props)) @
     fst (contribution checkTags (JObj props)) @ fst cp @
     fst (contribution checkRating (JObj props)) @ fst (contribution checkFeatured (JObj props)) = []"
    "snd (contribution checkStringFields (JObj props)) @ snd (contribution checkCategory (JObj props)) @
     snd (contribution checkDifficulty (JObj props)) @ snd (contribution checkPriceType (JObj props)) @
     snd (contribution checkTags (JObj props)) @ snd cp @
     snd (contribution checkRating (JObj props)) @ snd (contribution checkFeatured (JObj props)) = []"
    by (simp_all add: validateResource_object validResult_def)
  then have "fst (contribution checkStringFields (JObj props)) = [] \<and> snd (contribution checkStringFields (JObj props)) = []"
    "fst (contribution checkCategory (JObj props)) = [] \<and> snd (contribution checkCategory (JObj props)) = []"
    "fst (contribution checkDifficulty (JObj props)) = [] \<and> snd (contribution checkDifficulty (JObj props)) = []"
    "fst (contribution checkPriceType (JObj props)) = [] \<and> snd (contribution checkPriceType (JObj props)) = []"
    "fst (contribution checkTags (JObj props)) = [] \<and> snd (contribution checkTags (JObj props)) = []"
    "fst cp = [] \<and> snd cp = []"
    "fst (contribution checkRating (JObj props)) = [] \<and> snd (contribution checkRating (JObj props)) = []"
    "fst (contribution checkFeatured (JObj props)) = [] \<and> snd (contribution checkFeatured (JObj props)) = []"
    by simp_all
  with cp show "contribution checkStringFields (JObj props) = ([], [])"
    "contribution checkCategory (JObj props) = ([], [])"
    "contribution checkDifficulty (JObj props) = ([], [])"
    "contribution checkPriceType (JObj props) = ([], [])"
    "contribution checkTags (JObj props) = ([], [])"
    "platformsContribution (JObj props) = Inr ([], [])"
    "contribution checkRating (JObj props) = ([], [])"
    "contribution checkFeatured (JObj props) = ([], [])"
    by (simp_all add: prod_eq_iff)
qed

lemma array_includes_JStr: "array_includes (map JStr xs) (JStr s) \<longleftrightarrow> s \<in> set xs"
  by (auto simp: array_includes_def)

lemma category_invalid:
  assumes valid: "validateResource (JObj props) = Inr validResult"
    and s: "isNonEmptyString (JStr s)" "s \<notin> set CATEGORY_IDS"
  shows "validateResource (JObj ((str ''category'', JStr s) # props)) =
     Inr \<lparr>success = False, missingFields = [],
          invalidFields = [(str ''category'', InvalidCategory (JStr s))]\<rparr>"
proof -
  have c: "contribution checkCategory (JObj ((str ''category'', JStr s) # props)) =
      ([], [(str ''category'', InvalidCategory (JStr s))])"
    using s by (simp add: contribution_def checkCategory_def array_includes_JStr pushInvalid_def)
  show ?thesis
    by (simp add: validateResource_object frame_checks valid_contributions[OF valid] c)
qed

lemma difficulty_invalid:
  assumes valid: "validateResource (JObj props) = Inr validResult"
    and s: "isNonEmptyString (JStr s)" "s \<notin> set DIFFICULTY_LEVELS"
  shows "validateResource (JObj ((str ''difficulty'', JStr s) # props)) =
     Inr \<lparr>success = False, missingFields = [],
          invalidFields = [(str ''difficulty'', InvalidDifficulty (JStr s))]\<rparr>"
proof -
  have c: "contribution checkDifficulty (JObj ((str ''difficulty'', JStr s) # props)) =
      ([], [(str ''difficulty'', InvalidDifficulty (JStr s))])"
    using s by (simp add: contribution_def checkDifficulty_def array_includes_JStr pushInvalid_def)
  show ?thesis
    by (simp add: validateResource_object frame_checks valid_contributions[OF valid] c)
qed

lemma priceType_invalid:
  assumes valid: "validateResource (JObj props) = Inr validResult"
    and s: "isNonEmptyString (JStr s)" "s \<notin> set PRICE_TYPES"
  shows "validateResource (JObj ((str ''priceType'', JStr s) # props)) =
     Inr \<lparr>success = False, missingFields = [],
          invalidFields = [(str ''priceType'', InvalidPriceType (JStr s))]\<rparr>"
proof -
  have c: "contribution checkPriceType (JObj ((str ''priceType'', JStr s) # props)) =
      ([], [(str ''priceType'', InvalidPriceType (JStr s))])"
    using s by (simp add: contribution_def checkPriceType_def array_includes_JStr pushInvalid_def)
  show ?thesis
    by (simp add: validateResource_object frame_checks valid_contributions[OF valid] c)
qed

lemma invalid_platform_iff:
  "(typeof p \<noteq> ''string'' \<or> \<not> array_includes (map JStr PLATFORMS) p) \<longleftrightarrow> p \<notin> JStr ` set PLATFORMS"
  by (cases p) (auto simp: array_includes_def)

lemma platforms_invalid:
  assumes valid: "validateResource (JObj props) = Inr validResult"
    and xs: "list_ex (\<lambda>p. p \<notin> JStr ` set PLATFORMS) xs" "\<not> joinThrows xs"
  shows "validateResource (JObj ((str ''platforms'', JArr xs) # props)) =
     Inr \<lparr>success = False, missingFields = [],
          invalidFields = [(str ''platforms'',
             InvalidPlatforms (filter (\<lambda>p. p \<notin> JStr ` set PLATFORMS) xs))]\<rparr>"
proof -
  have ne: "filter (\<lambda>p. p \<notin> JStr ` set PLATFORMS) xs \<noteq> []"
    using xs(1) by (auto simp: list_ex_iff filter_empty_conv)
  then have nonempty: "xs \<noteq> []" by auto
  have nt: "\<not> joinThrows (filter (\<lambda>p. p \<notin> JStr ` set PLATFORMS) xs)"
    using xs(2) joinThrows_filter by blast
  have f: "filter (\<lambda>p. typeof p \<noteq> ''string'' \<or> \<not> array_includes (map JStr PLATFORMS) p) ys =
      filter (\<lambda>p. p \<notin> JStr ` set PLATFORMS) ys" for ys
    by (rule filter_cong) (use invalid_platform_iff in blast)+
  have c: "platformsContribution (JObj ((str ''platforms'', JArr xs) # props)) =
      Inr ([], [(str ''platforms'', InvalidPlatforms (filter (\<lambda>p. p \<notin> JStr ` set PLATFORMS) xs))])"
    unfolding platformsContribution_def checkPlatforms_def Let_def f
    using ne nonempty nt
    by (simp add: isNonEmptyArray_def pushInvalid_def)
  show ?thesis
    by (simp add: validateResource_object frame_checks valid_contributions[OF valid] c)
qed

lemma outside_range_iff:
  "n \<noteq> NaN \<Longrightarrow> (js_less n (Finite 1) \<or> js_less (Finite 5) n) = (\<not> ratingInRange (JNum n))"
  by (cases n) (auto simp: ratingInRange_def)

lemma rating_reported:
  assumes obj: "typeof v = ''object''" "v \<noteq> JNull" "platformsPrintable v"
    and r: "getProp v (str ''rating'') = JNum n" "n \<noteq> NaN" "\<not> ratingInRange (JNum n)"
  shows "\<exists>res. validateResource v = Inr res \<and> \<not> success res \<and>
           (str ''rating'', RatingNotBetween1And5) \<in> set (invalidFields res)"
proof -
  from platformsContribution_Inr[OF obj(3)] obtain c where c: "platformsContribution v = Inr c" ..
  have "js_less n (Finite 1) \<or> js_less (Finite 5) n"
    using r(2,3) by (simp add: outside_range_iff)
  then have "contribution checkRating v = ([], [(str ''rating'', RatingNotBetween1And5)])"
    using r(1) by (auto simp: contribution_def checkRating_def pushInvalid_def)
  then show ?thesis using obj c by (simp add: validateResource_object)
qed

lemma all_missing:
  assumes "\<forall>k \<in> set REQUIRED_RESOURCE_FIELDS. map_of props k = None"
  shows "\<exists>res. validateResource (JObj props) = Inr res \<and> \<not> success res \<and>
           set (missingFields res) = set REQUIRED_RESOURCE_FIELDS \<and>
           length (missingFields res) = length REQUIRED_RESOURCE_FIELDS"
proof -
  have u: "map_of props (str ''id'') = None"
    "map_of props (str ''name'') = None"
    "map_of props (str ''description'') = None"
    "map_of props (str ''category'') = None"
    "map_of props (str ''subcategory'') = None"
    "map_of props (str ''tags'') = None"
    "map_of props (str ''difficulty'') = None"
    "map_of props (str ''priceType'') = None"
    "map_of props (str ''platforms'') = None"
    "map_of props (str ''url'') = None"
    using assms by (simp_all add: REQUIRED_RESOURCE_FIELDS_def)
  have c: "contribution checkStringFields (JObj props) =
        ([str ''id'', str ''name'', str ''description'', str ''subcategory'', str ''url''], [])"
      "contribution checkCategory (JObj props) = ([str ''category''], [])"
      "contribution checkDifficulty (JObj props) = ([str ''difficulty''], [])"
      "contribution checkPriceType (JObj props) = ([str ''priceType''], [])"
      "contribution checkTags (JObj props) = ([str ''tags''], [])"
      "platformsContribution (JObj props) = Inr ([str ''platforms''], [])"
    by (simp_all add: contribution_def platformsContribution_def checkStringFields_def
          checkCategory_def checkDifficulty_def checkPriceType_def checkTags_def
          checkPlatforms_def u isNonEmptyString_def isNonEmptyArray_def pushMissing_def)
  show ?thesis
    by (auto simp: validateResource_object c contribution_sides REQUIRED_RESOURCE_FIELDS_def)
qed

lemma includes_JStr_image: "array_includes (map JStr xs) v \<longleftrightarrow> v \<in> JStr ` set xs"
  by (simp add: array_includes_def)

lemma missing_strings:
  "set (fst (contribution checkStringFields obj)) =
     {f \<in> {str ''id'', str ''name'', str ''description'', str ''subcategory'', str ''url''}.
        \<not> isNonEmptyString (getProp obj f)}"
  unfolding contribution_def checkStringFields_def Let_def foldl_Cons foldl_Nil checkStringField_add
  by auto

lemma missing_enums:
  "set (fst (contribution checkCategory obj)) =
     {f \<in> {str ''category''}. \<not> isNonEmptyString (getProp obj f)}"
  "set (fst (contribution checkDifficulty obj)) =
     {f \<in> {str ''difficulty''}. \<not> isNonEmptyString (getProp obj f)}"
  "set (fst (contribution checkPriceType obj)) =
     {f \<in> {str ''priceType''}. \<not> isNonEmptyString (getProp obj f)}"
  "set (fst (contribution checkTags obj)) =
     {f \<in> {str ''tags''}. \<not> isNonEmptyArray (getProp obj f)}"
  by (auto simp: contribution_def checkCategory_def checkDifficulty_def checkPriceType_def
        checkTags_def pushMissing_def pushInvalid_def Let_def)

lemma missing_platforms:
  "platformsContribution obj = Inr cp \<Longrightarrow>
   set (fst cp) = {f \<in> {str ''platforms''}. \<not> isNonEmptyArray (getProp obj f)}"
  by (auto simp: platformsContribution_def checkPlatforms_def pushMissing_def pushInvalid_def
        Let_def split: if_splits)

lemma invalid_enums:
  "fst ` set (snd (contribution checkCategory obj)) =
     {f \<in> {str ''category''}. fieldInvalid obj f}"
  "fst ` set (snd (contribution checkDifficulty obj)) =
     {f \<in> {str ''difficulty''}. fieldInvalid obj f}"
  "fst ` set (snd (contribution checkPriceType obj)) =
     {f \<in> {str ''priceType''}. fieldInvalid obj f}"
  by (auto simp: contribution_def checkCategory_def checkDifficulty_def checkPriceType_def
        pushMissing_def pushInvalid_def fieldInvalid_def includes_JStr_image)

lemma blank_tag_iff:
  "(case tag of JStr s \<Rightarrow> length (trim s) = 0 | _ \<Rightarrow> True) \<longleftrightarrow> \<not> isNonEmptyString tag"
  by (cases tag) (simp_all add: isNonEmptyString_def)

lemma invalid_tags:
  "fst ` set (snd (contribution checkTags obj)) = {f \<in> {str ''tags''}. fieldInvalid obj f}"
proof -
  have f: "filter (\<lambda>tag. case tag of JStr s \<Rightarrow> length (trim s) = 0 | _ \<Rightarrow> True) ys =
      filter (\<lambda>tag. \<not> isNonEmptyString tag) ys" for ys
    by (rule filter_cong) (use blank_tag_iff in blast)+
  show ?thesis
    unfolding contribution_def checkTags_def Let_def f
    by (auto simp: pushMissing_def pushInvalid_def fieldInvalid_def list_ex_iff filter_empty_conv)
qed

lemma invalid_platforms:
  assumes "platformsContribution obj = Inr cp"
  shows "fst ` set (snd cp) = {f \<in> {str ''platforms''}. fieldInvalid obj f}"
proof -
  have f: "filter (\<lambda>p. typeof p \<noteq> ''string'' \<or> \<not> array_includes (map JStr PLATFORMS) p) ys =
      filter (\<lambda>p. p \<notin> JStr ` set PLATFORMS) ys" for ys
    by (rule filter_cong) (use invalid_platform_iff in blast)+
  show ?thesis
    using assms unfolding platformsContribution_def checkPlatforms_def Let_def f
    by (auto simp: pushMissing_def pushInvalid_def fieldInvalid_def list_ex_iff filter_empty_conv
          split: if_splits)
qed

lemma invalid_rating:
  assumes "getProp obj (str ''rating'') \<noteq> JNum NaN"
  shows "fst ` set (snd (contribution checkRating obj)) =
           {f \<in> {str ''rating''}. fieldInvalid obj f}"
proof (cases "getProp obj (str ''rating'')")
  case (JNum n)
  with assms have "n \<noteq> NaN" by simp
  from outside_range_iff[OF this] JNum show ?thesis
    by (auto simp: contribution_def checkRating_def pushInvalid_def fieldInvalid_def)
qed (auto simp: contribution_def checkRating_def pushInvalid_def fieldInvalid_def
       ratingInRange_def)

lemma invalid_featured:
  "fst ` set (snd (contribution checkFeatured obj)) =
     {f \<in> {str ''featured''}. fieldInvalid obj f}"
  by (auto simp: contribution_def checkFeatured_def pushInvalid_def fieldInvalid_def)

lemma fieldInvalid_fields:
  "fieldInvalid obj f \<Longrightarrow>
   f \<in> {str ''category'', str ''difficulty'', str ''priceType'', str ''tags'', str ''platforms'',
        str ''rating'', str ''featured''}"
  by (auto simp: fieldInvalid_def split: if_splits)

lemma reports_every_offending_field:
  assumes obj: "typeof v = ''object''" "v \<noteq> JNull" and p: "platformsPrintable v"
    and nan: "getProp v (str ''rating'') \<noteq> JNum NaN"
  shows "\<exists>res. validateResource v = Inr res \<and>
           set (missingFields res) = {f \<in> set REQUIRED_RESOURCE_FIELDS. fieldMissing v f} \<and>
           fst ` set (invalidFields res) = {f. fieldInvalid v f} \<and>
           success res = (missingFields res = [] \<and> invalidFields res = [])"
proof -
  from platformsContribution_Inr[OF p] obtain cp where cp: "platformsContribution v = Inr cp" ..
  let ?res = "\<lparr>success =
                 (fst (contribution checkStringFields v) @ fst (contribution checkCategory v) @
                  fst (contribution checkDifficulty v) @ fst (contribution checkPriceType v) @
                  fst (contribution checkTags v) @ fst cp @
                  fst (contribution checkRating v) @ fst (contribution checkFeatured v) = [] \<and>
                  snd (contribution checkStringFields v) @ snd (contribution checkCategory v) @
                  snd (contribution checkDifficulty v) @ snd (contribution checkPriceType v) @
                  snd (contribution checkTags v) @ snd cp @
                  snd (contribution checkRating v) @ snd (contribution checkFeatured v) = []),
               missingFields =
                  fst (contribution checkStringFields v) @ fst (contribution checkCategory v) @
                  fst (contribution checkDifficulty v) @ fst (contribution checkPriceType v) @
                  fst (contribution checkTags v) @ fst cp @
                  fst (contribution checkRating v) @ fst (contribution checkFeatured v),
               invalidFields =
                  snd (contribution checkStringFields v) @ snd (contribution checkCategory v) @
                  snd (contribution checkDifficulty v) @ snd (contribution checkPriceType v) @
                  snd (contribution checkTags v) @ snd cp @
                  snd (contribution checkRating v) @ snd (contribution checkFeatured v)\<rparr>"
  have r: "validateResource v = Inr ?res"
    using obj cp by (simp add: validateResource_object)
  have m: "set (missingFields ?res) = {f \<in> set REQUIRED_RESOURCE_FIELDS. fieldMissing v f}"
    by (auto simp: missing_strings missing_enums missing_platforms[OF cp] contribution_sides
          REQUIRED_RESOURCE_FIELDS_def fieldMissing_def)
  have i: "fst ` set (invalidFields ?res) = {f. fieldInvalid v f}"
    using fieldInvalid_fields[of v]
    by (auto simp: image_Un invalid_enums invalid_tags invalid_platforms[OF cp]
          invalid_rating[OF nan] invalid_featured contribution_sides)
  have s: "success ?res = (missingFields ?res = [] \<and> invalidFields ?res = [])"
    by simp
  from r m i s show ?thesis by blast
qed

lemmas validate_defs =
  validateResource_def checkStringFields_def checkCategory_def checkDifficulty_def
  checkPriceType_def checkTags_def checkPlatforms_def checkRating_def checkFeatured_def
  pushMissing_def pushInvalid_def isNonEmptyString_def isNonEmptyArray_def
  array_includes_def joinThrows_def
  CATEGORY_IDS_def DIFFICULTY_LEVELS_def PRICE_TYPES_def PLATFORMS_def
  REQUIRED_RESOURCE_FIELDS_def valid_resource_def validResult_def
  trim_def isWhiteSpace_def Let_def

lemma valid_resource_valid: "validateResource (JObj valid_resource) = Inr validResult"
  by (simp add: validate_defs str_def)

text \<open>
  Claim C5, as stated, fails: in a record that is valid otherwise, the category 42 is a
  value outside the enumeration, and it is reported in \<open>missingFields\<close>, not in
  \<open>invalidFields\<close>.
\<close>

theorem validateResource_non_string_category_counterexample:
  "validateResource (JObj valid_resource) = Inr validResult \<and>
   \<not> array_includes (map JStr CATEGORY_IDS) (JNum (Finite 42)) \<and>
   validateResource (JObj ((str ''category'', JNum (Finite 42)) # valid_resource)) =
     Inr \<lparr>success = False, missingFields = [str ''category''], invalidFields = []\<rparr>"
  by (simp add: validate_defs str_def)

text \<open>
  An input on which \<open>validateResource\<close> throws: the only entry of \<open>platforms\<close> is an object
  with an own property \<open>toString\<close>, and joining the invalid entries raises \<open>TypeError\<close>.
\<close>

lemma validateResource_throws_on_unprintable_platform:
  "validateResource
     (JObj ((str ''platforms'', JArr [JObj [(str ''toString'', JNum (Finite 1))]]) # valid_resource))
   = Inl TypeError"
  by (simp add: validate_defs str_def)

text \<open>
  An input on which \<open>validateResource\<close> misses an invalid field: the rating \<open>NaN\<close> is
  outside the range from 1 to 5, both comparisons of the code are false for it, and the
  record passes as valid.
\<close>

lemma validateResource_accepts_NaN_rating:
  "\<not> ratingInRange (JNum NaN) \<and>
   fieldInvalid (JObj ((str ''rating'', JNum NaN) # valid_resource)) (str ''rating'') \<and>
   validateResource (JObj ((str ''rating'', JNum NaN) # valid_resource)) = Inr validResult"
  by (simp add: validate_defs ratingInRange_def fieldInvalid_def str_def)

text \<open>
  Claim C5, amended. \<open>validateResource\<close> returns a result, without throwing, for every
  input whose \<open>platforms\<close> entries all have a string conversion. For \<open>null\<close>, \<open>undefined\<close> and
  every non-object it reports every required field as missing. For an object without
  any of the required fields it reports all of them as missing. When a valid record
  has its category, difficulty or price type replaced by a non-blank string outside
  the enumeration, or its platforms by an array with an entry outside the enumeration
  (and each with a string conversion), the result reports exactly that field in
  \<open>invalidFields\<close> and nothing in \<open>missingFields\<close>. A rating that is a number other than
  \<open>NaN\<close> and outside the inclusive range from 1 to 5 is reported in \<open>invalidFields\<close>. In
  general, for an object whose \<open>platforms\<close> entries have a string conversion and whose
  rating is not \<open>NaN\<close>, \<open>missingFields\<close> holds exactly the required fields that are
  missing and \<open>invalidFields\<close> exactly the fields that are invalid, all in the one
  result. Nothing is said of a rating \<open>NaN\<close>.
\<close>

theorem validateResource_reports:
  "(platformsPrintable v \<longrightarrow> (\<exists>res. validateResource v = Inr res)) \<and>
   (v = JNull \<or> v = JUndefined \<or> typeof v \<noteq> ''object'' \<longrightarrow>
      validateResource v =
        Inr \<lparr>success = False, missingFields = REQUIRED_RESOURCE_FIELDS, invalidFields = []\<rparr>) \<and>
   ((\<forall>k \<in> set REQUIRED_RESOURCE_FIELDS. map_of props k = None) \<longrightarrow>
      (\<exists>res. validateResource (JObj props) = Inr res \<and> \<not> success res \<and>
             set (missingFields res) = set REQUIRED_RESOURCE_FIELDS)) \<and>
   (validateResource (JObj props) = Inr validResult \<and> isNonEmptyString (JStr s) \<longrightarrow>
      (s \<notin> set CATEGORY_IDS \<longrightarrow>
         validateResource (JObj ((str ''category'', JStr s) # props)) =
           Inr \<lparr>success = False, missingFields = [],
                invalidFields = [(str ''category'', InvalidCategory (JStr s))]\<rparr>) \<and>
      (s \<notin> set DIFFICULTY_LEVELS \<longrightarrow>
         validateResource (JObj ((str ''difficulty'', JStr s) # props)) =
           Inr \<lparr>success = False, missingFields = [],
                invalidFields = [(str ''difficulty'', InvalidDifficulty (JStr s))]\<rparr>) \<and>
      (s \<notin> set PRICE_TYPES \<longrightarrow>
         validateResource (JObj ((str ''priceType'', JStr s) # props)) =
           Inr \<lparr>success = False, missingFields = [],
                invalidFields = [(str ''priceType'', InvalidPriceType (JStr s))]\<rparr>)) \<and>
   (validateResource (JObj props) = Inr validResult \<and>
    list_ex (\<lambda>p. p \<notin> JStr ` set PLATFORMS) xs \<and> \<not> joinThrows xs \<longrightarrow>
      validateResource (JObj ((str ''platforms'', JArr xs) # props)) =
        Inr \<lparr>success = False, missingFields = [],
             invalidFields = [(str ''platforms'',
                InvalidPlatforms (filter (\<lambda>p. p \<notin> JStr ` set PLATFORMS) xs))]\<rparr>) \<and>
   (typeof v = ''object'' \<and> v \<noteq> JNull \<and> platformsPrintable v \<and>
    getProp v (str ''rating'') = JNum n \<and> n \<noteq> NaN \<and> \<not> ratingInRange (JNum n) \<longrightarrow>
      (\<exists>res. validateResource v = Inr res \<and> \<not> success res \<and>
             (str ''rating'', RatingNotBetween1And5) \<in> set (invalidFields res))) \<and>
   (typeof v = ''object'' \<and> v \<noteq> JNull \<and> platformsPrintable v \<and>
    getProp v (str ''rating'') \<noteq> JNum NaN \<longrightarrow>
      (\<exists>res. validateResource v = Inr res \<and>
             set (missingFields res) = {f \<in> set REQUIRED_RESOURCE_FIELDS. fieldMissing v f} \<and>
             fst ` set (invalidFields res) = {f. fieldInvalid v f} \<and>
             success res = (missingFields res = [] \<and> invalidFields res = [])))"
proof -
  have nonobj: "validateResource v =
        Inr \<lparr>success = False, missingFields = REQUIRED_RESOURCE_FIELDS, invalidFields = []\<rparr>"
    if "v = JNull \<or> v = JUndefined \<or> typeof v \<noteq> ''object''"
    using that by (auto simp: validateResource_def)
  have missing: "\<exists>res. validateResource (JObj props) = Inr res \<and> \<not> success res \<and>
             set (missingFields res) = set REQUIRED_RESOURCE_FIELDS"
    if "\<forall>k \<in> set REQUIRED_RESOURCE_FIELDS. map_of props k = None"
    using all_missing[OF that] by blast
  from validateResource_returns[of v] nonobj missing
       category_invalid[of props s] difficulty_invalid[of props s] priceType_invalid[of props s]
       platforms_invalid[of props xs] rating_reported[of v n]
       reports_every_offending_field[of v]
  show ?thesis by blast
qed

theorem validateResource_reports_witness:
  "validateResource (JObj valid_resource) = Inr validResult \<and>
   validateResource JNull =
     Inr \<lparr>success = False, missingFields = REQUIRED_RESOURCE_FIELDS, invalidFields = []\<rparr> \<and>
   (\<exists>res. validateResource (JObj []) = Inr res \<and>
          set (missingFields res) = set REQUIRED_RESOURCE_FIELDS) \<and>
   validateResource (JObj ((str ''category'', JStr (str ''robots'')) # valid_resource)) =
     Inr \<lparr>success = False, missingFields = [],
          invalidFields = [(str ''category'', InvalidCategory (JStr (str ''robots'')))]\<rparr> \<and>
   validateResource
       (JObj ((str ''platforms'', JArr [JStr (str ''web''), JStr (str ''gameboy'')]) # valid_resource)) =
     Inr \<lparr>success = False, missingFields = [],
          invalidFields = [(str ''platforms'', InvalidPlatforms [JStr (str ''gameboy'')])]\<rparr> \<and>
   validateResource (JObj ((str ''difficulty'', JStr (str ''robots'')) # valid_resource)) =
     Inr \<lparr>success = False, missingFields = [],
          invalidFields = [(str ''difficulty'', InvalidDifficulty (JStr (str ''robots'')))]\<rparr> \<and>
   validateResource (JObj ((str ''priceType'', JStr (str ''robots'')) # valid_resource)) =
     Inr \<lparr>success = False, missingFields = [],
          invalidFields = [(str ''priceType'', InvalidPriceType (JStr (str ''robots'')))]\<rparr> \<and>
   (\<exists>res. validateResource (JObj ((str ''rating'', JNum (Finite 7)) # valid_resource)) = Inr res \<and>
          (str ''rating'', RatingNotBetween1And5) \<in> set (invalidFields res) \<and>
          fst ` set (invalidFields res) =
            {f. fieldInvalid (JObj ((str ''rating'', JNum (Finite 7)) # valid_resource)) f})"
proof -
  have v: "validateResource (JObj valid_resource) = Inr validResult"
    by (rule valid_resource_valid)
  have s: "isNonEmptyString (JStr (str ''robots''))" "str ''robots'' \<notin> set CATEGORY_IDS"
    "str ''robots'' \<notin> set DIFFICULTY_LEVELS" "str ''robots'' \<notin> set PRICE_TYPES"
    by (simp_all add: isNonEmptyString_def trim_def isWhiteSpace_def CATEGORY_IDS_def
          DIFFICULTY_LEVELS_def PRICE_TYPES_def str_def)
  have f: "filter (\<lambda>p. p \<notin> JStr ` set PLATFORMS) [JStr (str ''web''), JStr (str ''gameboy'')]
            = [JStr (str ''gameboy'')]"
    by (simp add: PLATFORMS_def image_iff)
  have x: "list_ex (\<lambda>p. p \<notin> JStr ` set PLATFORMS) [JStr (str ''web''), JStr (str ''gameboy'')]"
    "\<not> joinThrows [JStr (str ''web''), JStr (str ''gameboy'')]"
    by (simp_all add: PLATFORMS_def joinThrows_def image_iff)
  have r: "typeof (JObj ((str ''rating'', JNum (Finite 7)) # valid_resource)) = ''object''"
    "JObj ((str ''rating'', JNum (Finite 7)) # valid_resource) \<noteq> JNull"
    "platformsPrintable (JObj ((str ''rating'', JNum (Finite 7)) # valid_resource))"
    "getProp (JObj ((str ''rating'', JNum (Finite 7)) # valid_resource)) (str ''rating'') = JNum (Finite 7)"
    "Finite 7 \<noteq> NaN" "\<not> ratingInRange (JNum (Finite 7))"
    "getProp (JObj ((str ''rating'', JNum (Finite 7)) # valid_resource)) (str ''rating'') \<noteq> JNum NaN"
    by (simp_all add: platformsPrintable_def joinThrows_def valid_resource_def ratingInRange_def)
  have m: "\<forall>k \<in> set REQUIRED_RESOURCE_FIELDS. map_of [] k = None" by simp
  note null = validateResource_reports[of JNull "[]" "str ''robots''" "[]" PosInfinity]
  note obj = validateResource_reports[of "JObj ((str ''rating'', JNum (Finite 7)) # valid_resource)" valid_resource
                  "str ''robots''" "[JStr (str ''web''), JStr (str ''gameboy'')]" "Finite 7"]
  have p1: "validateResource JNull =
     Inr \<lparr>success = False, missingFields = REQUIRED_RESOURCE_FIELDS, invalidFields = []\<rparr>"
    using null by simp
  have p2: "\<exists>res. validateResource (JObj []) = Inr res \<and>
          set (missingFields res) = set REQUIRED_RESOURCE_FIELDS"
    using null m by blast
  have p3: "validateResource (JObj ((str ''category'', JStr (str ''robots'')) # valid_resource)) =
     Inr \<lparr>success = False, missingFields = [],
          invalidFields = [(str ''category'', InvalidCategory (JStr (str ''robots'')))]\<rparr>"
    using obj v s by blast
  have p4: "validateResource
       (JObj ((str ''platforms'', JArr [JStr (str ''web''), JStr (str ''gameboy'')]) # valid_resource)) =
     Inr \<lparr>success = False, missingFields = [],
          invalidFields = [(str ''platforms'', InvalidPlatforms [JStr (str ''gameboy'')])]\<rparr>"
    using obj v x unfolding f by blast
  have p5: "\<exists>res. validateResource (JObj ((str ''rating'', JNum (Finite 7)) # valid_resource)) = Inr res \<and>
          (str ''rating'', RatingNotBetween1And5) \<in> set (invalidFields res) \<and>
          fst ` set (invalidFields res) =
            {f. fieldInvalid (JObj ((str ''rating'', JNum (Finite 7)) # valid_resource)) f}"
    using obj r by force
  have p6: "validateResource (JObj ((str ''difficulty'', JStr (str ''robots'')) # valid_resource)) =
     Inr \<lparr>success = False, missingFields = [],
          invalidFields = [(str ''difficulty'', InvalidDifficulty (JStr (str ''robots'')))]\<rparr>"
    using obj v s by blast
  have p7: "validateResource (JObj ((str ''priceType'', JStr (str ''robots'')) # valid_resource)) =
     Inr \<lparr>success = False, missingFields = [],
          invalidFields = [(str ''priceType'', InvalidPriceType (JStr (str ''robots'')))]\<rparr>"
    using obj v s by blast
  from v p1 p2 p3 p4 p5 p6 p7 show ?thesis by blast
qed

end
